theory Spec2Isabelle
  imports Main
begin

section \<open>Host IR: modes, tarvals, opcodes\<close>

text \<open>
  The combo pass of libFirm (\<^verbatim>\<open>ir/opt/combo.c\<close>) works on the IR graph of its host.
  Pointers to IR nodes, to the pass's node records and to partitions are natural numbers
  indexing explicit stores.
\<close>

type_synonym ir_node_p = nat
type_synonym node_p = nat
type_synonym partition_p = nat
type_synonym ir_entity = nat

datatype ir_mode =
  mode_M | mode_X | mode_T | mode_BB | mode_b | mode_P | mode_BAD | mode_ANY
  | mode_Is | mode_Iu | mode_Ls | mode_Lu | mode_F | mode_D

definition mode_is_float :: "ir_mode \<Rightarrow> bool" where
  "mode_is_float m = (m = mode_F \<or> m = mode_D)"

text \<open>
  A tarval is a unique object, compared by address. The reserved tarvals are constructors of
  their own; every other tarval is a value of a mode.
\<close>

datatype ir_tarval =
  tarval_bad | tarval_undefined | tarval_reachable
  | tarval_b_false | tarval_b_true
  | tarval_val ir_mode int

text \<open>
  Modelled from the spec: the macros \<^verbatim>\<open>tarval_top\<close> and \<^verbatim>\<open>tarval_bottom\<close> come from the
  tarval header, which is not among the sources. The pass uses \<^verbatim>\<open>tarval_undefined\<close> where it
  computes Top (\<^verbatim>\<open>compute_Cmp\<close>) and documents \<^verbatim>\<open>tarval_bad\<close> as the alternative of Top for
  Unknown nodes, which the specification calls Bottom.
\<close>

definition tarval_top :: ir_tarval where
  "tarval_top = tarval_undefined"

definition tarval_bottom :: ir_tarval where
  "tarval_bottom = tarval_bad"

text \<open>\<^verbatim>\<open>#define tarval_unreachable tarval_top\<close>: the pass uses Top for Unreachable.\<close>

definition tarval_unreachable :: ir_tarval where
  "tarval_unreachable = tarval_top"

text \<open>
  Modelled from the spec: \<^verbatim>\<open>tarval_is_constant\<close>, \<^verbatim>\<open>get_mode_null\<close>, \<^verbatim>\<open>tarval_is_null\<close>
  and \<^verbatim>\<open>get_tarval_mode\<close> belong to the tarval module, which is not among the sources. The
  reserved tarvals other than the two booleans are not constants; the null of a mode is its
  value 0.
\<close>

fun get_tarval_mode :: "ir_tarval \<Rightarrow> ir_mode" where
  "get_tarval_mode tarval_bad = mode_BAD"
| "get_tarval_mode tarval_undefined = mode_ANY"
| "get_tarval_mode tarval_reachable = mode_X"
| "get_tarval_mode tarval_b_false = mode_b"
| "get_tarval_mode tarval_b_true = mode_b"
| "get_tarval_mode (tarval_val m v) = m"

fun tarval_is_constant :: "ir_tarval \<Rightarrow> bool" where
  "tarval_is_constant tarval_bad = False"
| "tarval_is_constant tarval_undefined = False"
| "tarval_is_constant tarval_reachable = False"
| "tarval_is_constant _ = True"

definition get_mode_null :: "ir_mode \<Rightarrow> ir_tarval" where
  "get_mode_null m = tarval_val m 0"

fun tarval_is_null :: "ir_tarval \<Rightarrow> bool" where
  "tarval_is_null (tarval_val m v) = (v = 0)"
| "tarval_is_null _ = False"

text \<open>
  The lattice element of the pass is a C union of a tarval pointer and a symbol; reading
  \<^verbatim>\<open>.tv\<close> of a symbol yields a pointer that equals no tarval.
\<close>

datatype lattice_elem_t = Tv ir_tarval | Sym ir_entity

fun is_tarval :: "lattice_elem_t \<Rightarrow> bool" where
  "is_tarval (Tv t) = True"
| "is_tarval (Sym e) = False"

fun is_entity :: "lattice_elem_t \<Rightarrow> bool" where
  "is_entity (Tv t) = False"
| "is_entity (Sym e) = True"

datatype ir_opcode =
  iro_Block | iro_Start | iro_End | iro_Jmp | iro_Cond | iro_Switch | iro_Return
  | iro_Proj | iro_Phi | iro_Const | iro_SymConst | iro_Unknown | iro_Bad
  | iro_Add | iro_Sub | iro_Mul | iro_And | iro_Or | iro_Eor
  | iro_Shl | iro_Shr | iro_Shrs | iro_Rotl
  | iro_Cmp | iro_Confirm | iro_Mux | iro_Call | iro_Load | iro_Store | iro_Conv
  | iro_Raise

datatype op_pin_state =
  op_pin_state_floats | op_pin_state_pinned | op_pin_state_exc_pinned | op_pin_state_mem_pinned

datatype symconst_kind = symconst_addr_ent | symconst_ofs_ent | symconst_type_size

text \<open>One entry of a Switch table: the bounds of the case and the Proj number it selects.\<close>

record ir_switch_table_entry =
  entry_min :: ir_tarval
  entry_max :: ir_tarval
  entry_pn :: int

text \<open>
  An IR node as the pass reads it. \<open>irn_block\<close> is input \<open>-1\<close>, \<open>irn_in\<close> the inputs
  \<open>0 .. arity - 1\<close>, \<open>irn_out\<close> the Def-Use edges (user and input position), \<open>irn_link\<close>
  the link slot holding the node record of the pass (\<open>None\<close> is the null pointer).
  \<open>irn_backedge\<close> holds the back edge flags of the control-flow predecessors of a Block.
\<close>

record ir_node =
  irn_op :: ir_opcode
  irn_mode :: ir_mode
  irn_block :: ir_node_p
  irn_in :: "ir_node_p list"
  irn_out :: "(ir_node_p \<times> int) list"
  irn_pinned :: op_pin_state
  irn_link :: "node_p option"
  irn_proj :: int
  irn_relation :: nat
  irn_tarval :: ir_tarval
  irn_symconst_kind :: symconst_kind
  irn_symbol :: ir_entity
  irn_block_entity :: "ir_entity option"
  irn_block_phis :: "ir_node_p list"
  irn_backedge :: "bool list"
  irn_switch_table :: "ir_switch_table_entry list"

section \<open>Data of the pass\<close>

record node_t =
  node :: ir_node_p
  part :: partition_p
  type :: lattice_elem_t
  max_user_input :: int
  next_edge :: nat
  n_followers :: nat
  on_touched :: bool
  on_cprop :: bool
  on_fallen :: bool
  is_follower :: bool
  flagged :: nat

text \<open>
  The intrusive lists of a partition are lists of node records; the links
  \<^verbatim>\<open>wl_next\<close> and \<^verbatim>\<open>cprop_next\<close> are the lists of the environment.
\<close>

record partition_t =
  Leader :: "node_p list"
  Follower :: "node_p list"
  cprop :: "node_p list"
  cprop_X :: "node_p list"
  n_leader :: nat
  n_touched :: nat
  max_user_inputs :: int
  on_worklist :: bool
  part_on_touched :: bool
  part_on_cprop :: bool
  type_is_T_or_C :: bool

record environment_t =
  worklist :: "partition_p list"
  env_cprop :: "partition_p list"
  touched :: "partition_p list"
  initial :: "partition_p option"
  kept_memory :: "ir_node_p list"
  end_idx :: int
  lambda_input :: int
  modified :: bool
  unopt_cf :: bool
  commutative :: bool
  opt_unknown :: bool

text \<open>The kinds of optimization the pass reports to the host through \<^verbatim>\<open>DBG_OPT_COMBO\<close>.\<close>

datatype hook_opt_kind =
  FS_OPT_COMBO_CONST | FS_OPT_COMBO_CF | FS_OPT_COMBO_FOLLOWER | FS_OPT_COMBO_CONGRUENT

text \<open>
  The whole state: the IR graph, the node records, the partitions (with the arena's next
  free slot), the environment, and the file-level variable \<^verbatim>\<open>tarval_UNKNOWN\<close>.
  \<open>irg_end_block\<close> and \<open>irg_end\<close> are the end block and the End node of the graph.
  \<open>exchanged\<close> records the calls of the host's \<^verbatim>\<open>exchange(old, new)\<close>, \<open>merged\<close> the reports
  of \<^verbatim>\<open>DBG_OPT_COMBO(old, new, kind)\<close>.
\<close>

record combo_state =
  irg :: "ir_node_p \<Rightarrow> ir_node"
  irg_next :: ir_node_p
  irg_start_block :: ir_node_p
  irg_end_block :: ir_node_p
  irg_end :: ir_node_p
  irg_fp_strict_algebraic :: bool
  exchanged :: "(ir_node_p \<times> ir_node_p) list"
  merged :: "(ir_node_p \<times> ir_node_p \<times> hook_opt_kind) list"
  node_tab :: "node_p \<Rightarrow> node_t"
  part_tab :: "partition_p \<Rightarrow> partition_t"
  part_next :: partition_p
  env :: environment_t
  tarval_UNKNOWN :: ir_tarval

datatype combo_error = AssertionFailed | Panic

subsection \<open>Accessors of the host\<close>

definition get_irn_node :: "combo_state \<Rightarrow> ir_node_p \<Rightarrow> node_p" where
  "get_irn_node st irn = the (irn_link (irg st irn))"

definition get_irn_opcode :: "combo_state \<Rightarrow> ir_node_p \<Rightarrow> ir_opcode" where
  "get_irn_opcode st irn = irn_op (irg st irn)"

definition get_irn_mode :: "combo_state \<Rightarrow> ir_node_p \<Rightarrow> ir_mode" where
  "get_irn_mode st irn = irn_mode (irg st irn)"

definition get_nodes_block :: "combo_state \<Rightarrow> ir_node_p \<Rightarrow> ir_node_p" where
  "get_nodes_block st irn = irn_block (irg st irn)"

definition get_irn_arity :: "combo_state \<Rightarrow> ir_node_p \<Rightarrow> nat" where
  "get_irn_arity st irn = length (irn_in (irg st irn))"

definition get_irn_n :: "combo_state \<Rightarrow> ir_node_p \<Rightarrow> nat \<Rightarrow> ir_node_p" where
  "get_irn_n st irn i = irn_in (irg st irn) ! i"

definition get_irn_pinned :: "combo_state \<Rightarrow> ir_node_p \<Rightarrow> op_pin_state" where
  "get_irn_pinned st irn = irn_pinned (irg st irn)"

definition get_Proj_proj :: "combo_state \<Rightarrow> ir_node_p \<Rightarrow> int" where
  "get_Proj_proj st irn = irn_proj (irg st irn)"

definition get_Proj_pred :: "combo_state \<Rightarrow> ir_node_p \<Rightarrow> ir_node_p" where
  "get_Proj_pred st irn = get_irn_n st irn 0"

definition get_Cond_selector :: "combo_state \<Rightarrow> ir_node_p \<Rightarrow> ir_node_p" where
  "get_Cond_selector st irn = get_irn_n st irn 0"

definition is_op :: "combo_state \<Rightarrow> ir_opcode \<Rightarrow> ir_node_p \<Rightarrow> bool" where
  "is_op st code irn = (get_irn_opcode st irn = code)"

abbreviation "is_Block st \<equiv> is_op st iro_Block"
abbreviation "is_Proj st \<equiv> is_op st iro_Proj"
abbreviation "is_Cond st \<equiv> is_op st iro_Cond"
abbreviation "is_Switch st \<equiv> is_op st iro_Switch"
abbreviation "is_Phi st \<equiv> is_op st iro_Phi"
abbreviation "is_Unknown st \<equiv> is_op st iro_Unknown"
abbreviation "is_End st \<equiv> is_op st iro_End"
abbreviation "is_Bad st \<equiv> is_op st iro_Bad"
abbreviation "is_Const st \<equiv> is_op st iro_Const"
abbreviation "is_SymConst st \<equiv> is_op st iro_SymConst"
abbreviation "is_Confirm st \<equiv> is_op st iro_Confirm"
abbreviation "is_Start st \<equiv> is_op st iro_Start"
abbreviation "is_Jmp st \<equiv> is_op st iro_Jmp"
abbreviation "is_Raise st \<equiv> is_op st iro_Raise"
abbreviation "is_Eor st \<equiv> is_op st iro_Eor"

text \<open>
  Modelled from the spec: \<^verbatim>\<open>skip_Proj\<close> is a function of the host's node module, which is
  not among the sources; it returns the predecessor of a Proj and any other node itself.
\<close>

definition skip_Proj :: "combo_state \<Rightarrow> ir_node_p \<Rightarrow> ir_node_p" where
  "skip_Proj st irn = (if is_Proj st irn then get_Proj_pred st irn else irn)"

text \<open>The Proj numbers of a Cond, from the host's node declarations.\<close>

definition pn_Cond_false :: int where
  "pn_Cond_false = 0"

definition pn_Cond_true :: int where
  "pn_Cond_true = 1"

subsection \<open>Reading and writing a node record\<close>

definition node_type :: "combo_state \<Rightarrow> node_p \<Rightarrow> lattice_elem_t" where
  "node_type st n = type (node_tab st n)"

definition set_node_type :: "combo_state \<Rightarrow> node_p \<Rightarrow> lattice_elem_t \<Rightarrow> combo_state" where
  "set_node_type st n t = st\<lparr>node_tab := (node_tab st)(n := (node_tab st n)\<lparr>type := t\<rparr>)\<rparr>"

definition get_node_type :: "combo_state \<Rightarrow> ir_node_p \<Rightarrow> lattice_elem_t" where
  "get_node_type st irn = node_type st (get_irn_node st irn)"

section \<open>Monotonicity check\<close>

text \<open>\<^verbatim>\<open>verify_type\<close>: returns normally or panics.\<close>

definition verify_type :: "lattice_elem_t \<Rightarrow> node_t \<Rightarrow> combo_error + unit" where
  "verify_type old_type x =
     (if old_type = type x then Inr ()
      else if old_type = Tv tarval_top then Inr ()
      else if type x = Tv tarval_bottom \<or> type x = Tv tarval_reachable then Inr ()
      else Inl Panic)"

section \<open>Options of the entry point\<close>

text \<open>
  The part of \<^verbatim>\<open>combo\<close> that sets the options driving the optimization and selects the
  tarval of Unknown nodes from them.
\<close>

definition combo_set_options :: "combo_state \<Rightarrow> combo_state" where
  "combo_set_options st = st\<lparr>env := (env st)\<lparr>commutative := True, opt_unknown := True\<rparr>\<rparr>"

definition combo_select_UNKNOWN :: "combo_state \<Rightarrow> combo_state" where
  "combo_select_UNKNOWN st =
     (if opt_unknown (env st) then st\<lparr>tarval_UNKNOWN := tarval_top\<rparr>
      else st\<lparr>tarval_UNKNOWN := tarval_bad\<rparr>)"

definition combo_setup :: "combo_state \<Rightarrow> combo_state" where
  "combo_setup st = combo_select_UNKNOWN (combo_set_options st)"

section \<open>Transfer functions\<close>

definition compute_Unknown :: "combo_state \<Rightarrow> node_p \<Rightarrow> combo_state" where
  "compute_Unknown st n = set_node_type st n (Tv (tarval_UNKNOWN st))"

definition compute_Proj_Cond :: "combo_state \<Rightarrow> node_p \<Rightarrow> ir_node_p \<Rightarrow> combo_error + combo_state" where
  "compute_Proj_Cond st n cond =
     (let proj = node (node_tab st n);
          pnc = get_Proj_proj st proj;
          sel = get_Cond_selector st cond;
          selector = get_irn_node st sel
      in if node_type st n = Tv tarval_reachable then Inr st
         else if pnc = pn_Cond_true then
           (if node_type st selector = Tv tarval_b_false then
              Inr (set_node_type st n (Tv tarval_unreachable))
            else if node_type st selector = Tv tarval_b_true then
              Inr (set_node_type st n (Tv tarval_reachable))
            else if node_type st selector = Tv tarval_bottom then
              Inr (set_node_type st n (Tv tarval_reachable))
            else if node_type st selector \<noteq> Tv tarval_top then Inl AssertionFailed
            else if tarval_UNKNOWN st = tarval_top then
              Inr (set_node_type st n (Tv tarval_unreachable))
            else Inr (set_node_type st n (Tv tarval_unreachable)))
         else if pnc \<noteq> pn_Cond_false then Inl AssertionFailed
         else
           (if node_type st selector = Tv tarval_b_false then
              Inr (set_node_type st n (Tv tarval_reachable))
            else if node_type st selector = Tv tarval_b_true then
              Inr (set_node_type st n (Tv tarval_unreachable))
            else if node_type st selector = Tv tarval_bottom then
              Inr (set_node_type st n (Tv tarval_reachable))
            else if node_type st selector \<noteq> Tv tarval_top then Inl AssertionFailed
            else if tarval_UNKNOWN st = tarval_top then
              Inr (set_node_type st n (Tv tarval_reachable))
            else Inr (set_node_type st n (Tv tarval_unreachable))))"

text \<open>
  The folding oracle and the tarval arithmetic of the host are parameters of the transfer
  functions. The oracle reads the types of the operands through the pass's
  \<^verbatim>\<open>get_node_tarval\<close>, so it takes the state. The local optimizer of the host,
  \<^verbatim>\<open>optimize_node\<close>, is a parameter of the constructor of a SymConst: it is handed the new
  node and may return another node of the graph in its place.
\<close>

record host_ops =
  computed_value :: "combo_state \<Rightarrow> ir_node_p \<Rightarrow> ir_tarval"
  tarval_add :: "ir_tarval \<Rightarrow> ir_tarval \<Rightarrow> ir_tarval"
  tarval_sub :: "ir_tarval \<Rightarrow> ir_tarval \<Rightarrow> ir_mode \<Rightarrow> ir_tarval"
  tarval_eor :: "ir_tarval \<Rightarrow> ir_tarval \<Rightarrow> ir_tarval"
  get_tarval_long :: "ir_tarval \<Rightarrow> int"
  optimize_node :: "combo_state \<Rightarrow> ir_node_p \<Rightarrow> ir_node_p \<times> combo_state"

definition the_tv :: "lattice_elem_t \<Rightarrow> ir_tarval" where
  "the_tv t = (case t of Tv v \<Rightarrow> v | Sym e \<Rightarrow> tarval_bad)"

definition is_con :: "lattice_elem_t \<Rightarrow> bool" where
  "is_con t = (if is_tarval t then tarval_is_constant (the_tv t) else is_entity t)"

definition is_constant_type :: "lattice_elem_t \<Rightarrow> bool" where
  "is_constant_type t = (t \<noteq> Tv tarval_bottom \<and> t \<noteq> Tv tarval_top)"

definition get_Block_cfgpred :: "combo_state \<Rightarrow> ir_node_p \<Rightarrow> nat \<Rightarrow> ir_node_p" where
  "get_Block_cfgpred st blk i = get_irn_n st blk i"

definition get_Phi_pred :: "combo_state \<Rightarrow> ir_node_p \<Rightarrow> nat \<Rightarrow> ir_node_p" where
  "get_Phi_pred st phi i = get_irn_n st phi i"

definition default_compute :: "host_ops \<Rightarrow> combo_state \<Rightarrow> node_p \<Rightarrow> combo_state" where
  "default_compute H st n =
     (let irn = node (node_tab st n) in
      if list_ex (\<lambda>pred. node_type st (get_irn_node st pred) = Tv tarval_top)
           (rev (irn_in (irg st irn)))
      then set_node_type st n (Tv tarval_top)
      else if get_irn_mode st irn = mode_X then set_node_type st n (Tv tarval_reachable)
      else set_node_type st n (Tv (computed_value H st irn)))"

definition compute_Block :: "combo_state \<Rightarrow> node_p \<Rightarrow> combo_state" where
  "compute_Block st n =
     (let block = node (node_tab st n) in
      if block = irg_start_block st \<or> irn_block_entity (irg st block) \<noteq> None then
        set_node_type st n (Tv tarval_reachable)
      else if list_ex (\<lambda>pred. node_type st (get_irn_node st pred) = Tv tarval_reachable)
           (rev (irn_in (irg st block)))
      then set_node_type st n (Tv tarval_reachable)
      else set_node_type st n (Tv tarval_top))"

definition compute_Bad :: "combo_state \<Rightarrow> node_p \<Rightarrow> combo_state" where
  "compute_Bad st n = set_node_type st n (Tv tarval_top)"

definition compute_Jmp :: "combo_state \<Rightarrow> node_p \<Rightarrow> combo_state" where
  "compute_Jmp st n =
     (let block = get_irn_node st (get_nodes_block st (node (node_tab st n)))
      in set_node_type st n (node_type st block))"

definition compute_Return :: "combo_state \<Rightarrow> node_p \<Rightarrow> combo_state" where
  "compute_Return st n = set_node_type st n (Tv tarval_reachable)"

definition compute_End :: "combo_state \<Rightarrow> node_p \<Rightarrow> combo_state" where
  "compute_End st n = set_node_type st n (Tv tarval_reachable)"

definition compute_Call :: "combo_state \<Rightarrow> node_p \<Rightarrow> combo_state" where
  "compute_Call st n = set_node_type st n (Tv tarval_bottom)"

definition compute_SymConst :: "host_ops \<Rightarrow> combo_state \<Rightarrow> node_p \<Rightarrow> combo_state" where
  "compute_SymConst H st n =
     (let irn = node (node_tab st n);
          block = get_irn_node st (get_nodes_block st irn)
      in if node_type st block = Tv tarval_unreachable then set_node_type st n (Tv tarval_top)
         else (case irn_symconst_kind (irg st irn) of
                 symconst_addr_ent \<Rightarrow> set_node_type st n (Sym (irn_symbol (irg st irn)))
               | _ \<Rightarrow> set_node_type st n (Tv (computed_value H st irn))))"

text \<open>
  The loop of \<^verbatim>\<open>compute_Phi\<close>, from input \<open>i - 1\<close> down to input 0, with the meet so far;
  the result is the type the Phi gets.
\<close>

fun compute_Phi_loop ::
  "combo_state \<Rightarrow> ir_node_p \<Rightarrow> ir_node_p \<Rightarrow> nat \<Rightarrow> lattice_elem_t \<Rightarrow> lattice_elem_t" where
  "compute_Phi_loop st phi blk 0 ty = ty"
| "compute_Phi_loop st phi blk (Suc i) ty =
     (let pred = get_irn_node st (get_Phi_pred st phi i);
          pred_X = get_irn_node st (get_Block_cfgpred st blk i)
      in if node_type st pred_X = Tv tarval_unreachable \<or> node_type st pred = Tv tarval_top
         then compute_Phi_loop st phi blk i ty
         else if node_type st pred = Tv tarval_bottom then Tv tarval_bottom
         else if ty = Tv tarval_top then compute_Phi_loop st phi blk i (node_type st pred)
         else if ty \<noteq> node_type st pred then Tv tarval_bottom
         else compute_Phi_loop st phi blk i ty)"

definition compute_Phi :: "combo_state \<Rightarrow> node_p \<Rightarrow> combo_state" where
  "compute_Phi st n =
     (let phi = node (node_tab st n);
          block = get_irn_node st (get_nodes_block st phi)
      in if node_type st block = Tv tarval_unreachable then set_node_type st n (Tv tarval_top)
         else set_node_type st n
                (compute_Phi_loop st phi (node (node_tab st block)) (get_irn_arity st phi)
                   (Tv tarval_top)))"

definition compute_Add :: "host_ops \<Rightarrow> combo_state \<Rightarrow> node_p \<Rightarrow> combo_state" where
  "compute_Add H st n =
     (let sub = node (node_tab st n);
          l = get_irn_node st (get_irn_n st sub 0);
          r = get_irn_node st (get_irn_n st sub 1);
          a = node_type st l;
          b = node_type st r
      in if a = Tv tarval_top \<or> b = Tv tarval_top then set_node_type st n (Tv tarval_top)
         else if a = Tv tarval_bottom \<or> b = Tv tarval_bottom then
           set_node_type st n (Tv tarval_bottom)
         else if is_tarval a then
           (if is_tarval b then set_node_type st n (Tv (tarval_add H (the_tv a) (the_tv b)))
            else if the_tv a = get_mode_null (get_tarval_mode (the_tv a)) then
              set_node_type st n b
            else set_node_type st n (Tv tarval_bottom))
         else if is_tarval b \<and> the_tv b = get_mode_null (get_tarval_mode (the_tv b)) then
           set_node_type st n a
         else set_node_type st n (Tv tarval_bottom))"

definition compute_Sub :: "host_ops \<Rightarrow> combo_state \<Rightarrow> node_p \<Rightarrow> combo_state" where
  "compute_Sub H st n =
     (let sub = node (node_tab st n);
          l = get_irn_node st (get_irn_n st sub 0);
          r = get_irn_node st (get_irn_n st sub 1);
          a = node_type st l;
          b = node_type st r
      in if a = Tv tarval_top \<or> b = Tv tarval_top then set_node_type st n (Tv tarval_top)
         else if is_con a \<and> is_con b then
           (if is_tarval a \<and> is_tarval b then
              set_node_type st n (Tv (tarval_sub H (the_tv a) (the_tv b) (get_irn_mode st sub)))
            else if is_tarval a \<and> tarval_is_null (the_tv a) then set_node_type st n b
            else if is_tarval b \<and> tarval_is_null (the_tv b) then set_node_type st n a
            else set_node_type st n (Tv tarval_bottom))
         else if part (node_tab st r) = part (node_tab st l)
                 \<and> \<not> mode_is_float (get_irn_mode st (node (node_tab st l))) then
           (let tv = get_mode_null (get_irn_mode st sub)
            in set_node_type st n
                 (Tv (if node_type st n \<noteq> Tv tv then tarval_bottom else tv)))
         else set_node_type st n (Tv tarval_bottom))"

definition compute_Eor :: "host_ops \<Rightarrow> combo_state \<Rightarrow> node_p \<Rightarrow> combo_state" where
  "compute_Eor H st n =
     (let eor = node (node_tab st n);
          l = get_irn_node st (get_irn_n st eor 0);
          r = get_irn_node st (get_irn_n st eor 1);
          a = node_type st l;
          b = node_type st r
      in if a = Tv tarval_top \<or> b = Tv tarval_top then set_node_type st n (Tv tarval_top)
         else if is_con a \<and> is_con b then
           (if is_tarval a \<and> is_tarval b then
              set_node_type st n (Tv (tarval_eor H (the_tv a) (the_tv b)))
            else if is_tarval a \<and> tarval_is_null (the_tv a) then set_node_type st n b
            else if is_tarval b \<and> tarval_is_null (the_tv b) then set_node_type st n a
            else set_node_type st n (Tv tarval_bottom))
         else if part (node_tab st r) = part (node_tab st l) then
           (let tv = get_mode_null (get_irn_mode st eor)
            in set_node_type st n
                 (Tv (if node_type st n \<noteq> Tv tv then tarval_bottom else tv)))
         else set_node_type st n (Tv tarval_bottom))"

text \<open>The bit of \<^verbatim>\<open>ir_relation_equal\<close> in a relation, from the host's declarations.\<close>

definition ir_relation_equal :: nat where
  "ir_relation_equal = 1"

definition relation_has_equal :: "nat \<Rightarrow> bool" where
  "relation_has_equal relation = (and relation ir_relation_equal \<noteq> 0)"

definition compute_Cmp :: "host_ops \<Rightarrow> combo_state \<Rightarrow> node_p \<Rightarrow> combo_state" where
  "compute_Cmp H st n =
     (let cmp = node (node_tab st n);
          l = get_irn_node st (get_irn_n st cmp 0);
          r = get_irn_node st (get_irn_n st cmp 1);
          a = node_type st l;
          b = node_type st r;
          relation = irn_relation (irg st cmp)
      in if a = Tv tarval_top \<or> b = Tv tarval_top then set_node_type st n (Tv tarval_undefined)
         else if is_con a \<and> is_con b then default_compute H st n
         else if part (node_tab st r) = part (node_tab st l)
                 \<and> \<not> mode_is_float (get_irn_mode st (node (node_tab st l))) then
           (let tv = (if relation_has_equal relation then tarval_b_true else tarval_b_false)
            in set_node_type st n
                 (Tv (if node_type st n = Tv tarval_bottom then tarval_bottom
                      else if node_type st n \<noteq> Tv tv \<and> is_constant_type (node_type st n)
                      then tarval_bottom else tv)))
         else set_node_type st n (Tv tarval_bottom))"

text \<open>The default Proj number of a Switch, from the host's node declarations.\<close>

definition pn_Switch_default :: int where
  "pn_Switch_default = 0"

text \<open>The walk over the switch table in \<^verbatim>\<open>compute_Proj_Switch\<close>.\<close>

fun switch_table_walk ::
  "host_ops \<Rightarrow> ir_switch_table_entry list \<Rightarrow> lattice_elem_t \<Rightarrow> int \<Rightarrow> ir_tarval" where
  "switch_table_walk H [] sel pnc =
     (if pnc = pn_Switch_default then tarval_reachable else tarval_unreachable)"
| "switch_table_walk H (entry # es) sel pnc =
     (if entry_min entry = entry_max entry then
        (if sel = Tv (entry_min entry) then
           (if entry_pn entry = pnc then tarval_reachable else tarval_unreachable)
         else switch_table_walk H es sel pnc)
      else if get_tarval_long H (entry_min entry) \<le> get_tarval_long H (the_tv sel)
              \<and> get_tarval_long H (the_tv sel) \<le> get_tarval_long H (entry_max entry) then
        (if entry_pn entry = pnc then tarval_reachable else tarval_unreachable)
      else switch_table_walk H es sel pnc)"

definition compute_Proj_Switch ::
  "host_ops \<Rightarrow> combo_state \<Rightarrow> node_p \<Rightarrow> ir_node_p \<Rightarrow> combo_state" where
  "compute_Proj_Switch H st n switchn =
     (let proj = node (node_tab st n);
          pnc = get_Proj_proj st proj;
          selector = get_irn_node st (get_irn_n st switchn 0)
      in if node_type st n = Tv tarval_reachable then st
         else if node_type st selector = Tv tarval_bottom then
           set_node_type st n (Tv tarval_reachable)
         else if node_type st selector = Tv tarval_top then
           (if tarval_UNKNOWN st = tarval_top \<and> pnc = pn_Switch_default then
              set_node_type st n (Tv tarval_reachable)
            else set_node_type st n (Tv tarval_unreachable))
         else set_node_type st n
                (Tv (switch_table_walk H (irn_switch_table (irg st switchn))
                       (node_type st selector) pnc)))"

definition compute_Proj :: "host_ops \<Rightarrow> combo_state \<Rightarrow> node_p \<Rightarrow> combo_error + combo_state" where
  "compute_Proj H st n =
     (let proj = node (node_tab st n);
          mode = get_irn_mode st proj;
          block = get_irn_node st (get_nodes_block st (skip_Proj st proj));
          pred = get_Proj_pred st proj
      in if node_type st block = Tv tarval_unreachable then
           Inr (set_node_type st n (Tv tarval_top))
         else if node_type st (get_irn_node st pred) = Tv tarval_top
                 \<and> \<not> is_Cond st pred \<and> \<not> is_Switch st pred then
           Inr (set_node_type st n (Tv tarval_top))
         else if mode = mode_M then Inr (set_node_type st n (Tv tarval_bottom))
         else if mode = mode_X \<and> get_irn_opcode st pred = iro_Start then
           Inr (set_node_type st n (Tv tarval_reachable))
         else if mode = mode_X \<and> get_irn_opcode st pred = iro_Cond then
           compute_Proj_Cond st n pred
         else if mode = mode_X \<and> get_irn_opcode st pred = iro_Switch then
           Inr (compute_Proj_Switch H st n pred)
         else Inr (default_compute H st n))"

definition compute_Confirm :: "combo_state \<Rightarrow> node_p \<Rightarrow> combo_state" where
  "compute_Confirm st n =
     (let confirm = node (node_tab st n);
          pred = get_irn_node st (get_irn_n st confirm 0);
          bound = get_irn_node st (get_irn_n st confirm 1)
      in if irn_relation (irg st confirm) = ir_relation_equal \<and> is_con (node_type st bound)
         then set_node_type st n (node_type st bound)
         else set_node_type st n (node_type st pred))"

text \<open>
  \<^verbatim>\<open>set_compute_functions\<close>: the transfer function installed in the generic slot of each
  opcode; every opcode without a function of its own gets \<^verbatim>\<open>default_compute\<close>.
\<close>

fun set_compute_functions ::
  "host_ops \<Rightarrow> ir_opcode \<Rightarrow> combo_state \<Rightarrow> node_p \<Rightarrow> combo_error + combo_state" where
  "set_compute_functions H iro_Block st n = Inr (compute_Block st n)"
| "set_compute_functions H iro_Unknown st n = Inr (compute_Unknown st n)"
| "set_compute_functions H iro_Bad st n = Inr (compute_Bad st n)"
| "set_compute_functions H iro_Jmp st n = Inr (compute_Jmp st n)"
| "set_compute_functions H iro_Phi st n = Inr (compute_Phi st n)"
| "set_compute_functions H iro_Add st n = Inr (compute_Add H st n)"
| "set_compute_functions H iro_Sub st n = Inr (compute_Sub H st n)"
| "set_compute_functions H iro_Eor st n = Inr (compute_Eor H st n)"
| "set_compute_functions H iro_SymConst st n = Inr (compute_SymConst H st n)"
| "set_compute_functions H iro_Cmp st n = Inr (compute_Cmp H st n)"
| "set_compute_functions H iro_Proj st n = compute_Proj H st n"
| "set_compute_functions H iro_Confirm st n = Inr (compute_Confirm st n)"
| "set_compute_functions H iro_Return st n = Inr (compute_Return st n)"
| "set_compute_functions H iro_End st n = Inr (compute_End st n)"
| "set_compute_functions H iro_Call st n = Inr (compute_Call st n)"
| "set_compute_functions H _ st n = Inr (default_compute H st n)"

text \<open>
  \<^verbatim>\<open>compute\<close>, the dispatcher. The monotony verifier is enabled in the source, so the early
  exit on Bottom is compiled out.
\<close>

definition compute :: "host_ops \<Rightarrow> combo_state \<Rightarrow> node_p \<Rightarrow> combo_error + combo_state" where
  "compute H st n =
     (let irn = node (node_tab st n) in
      if \<not> is_Block st irn
         \<and> get_irn_pinned st (skip_Proj st irn) = op_pin_state_pinned
         \<and> node_type st (get_irn_node st (get_nodes_block st irn)) = Tv tarval_unreachable
      then Inr (set_node_type st n (Tv tarval_top))
      else set_compute_functions H (get_irn_opcode st irn) st n)"

section \<open>Partitions and their lists\<close>

definition set_part :: "combo_state \<Rightarrow> partition_p \<Rightarrow> partition_t \<Rightarrow> combo_state" where
  "set_part st X P = st\<lparr>part_tab := (part_tab st)(X := P)\<rparr>"

definition set_node :: "combo_state \<Rightarrow> node_p \<Rightarrow> node_t \<Rightarrow> combo_state" where
  "set_node st n x = st\<lparr>node_tab := (node_tab st)(n := x)\<rparr>"

text \<open>\<^verbatim>\<open>add_to_worklist\<close> asserts that the partition is not yet on the worklist.\<close>

definition add_to_worklist :: "combo_state \<Rightarrow> partition_p \<Rightarrow> combo_error + combo_state" where
  "add_to_worklist st X =
     (if on_worklist (part_tab st X) then Inl AssertionFailed
      else Inr ((set_part st X ((part_tab st X)\<lparr>on_worklist := True\<rparr>))
                  \<lparr>env := (env st)\<lparr>worklist := X # worklist (env st)\<rparr>\<rparr>))"

text \<open>\<^verbatim>\<open>new_partition\<close> takes the next free slot of the arena.\<close>

definition new_partition :: "combo_state \<Rightarrow> partition_p \<times> combo_state" where
  "new_partition st =
     (part_next st,
      (set_part st (part_next st)
         \<lparr>Leader = [], Follower = [], cprop = [], cprop_X = [], n_leader = 0, n_touched = 0,
          max_user_inputs = 0, on_worklist = False, part_on_touched = False,
          part_on_cprop = False, type_is_T_or_C = False\<rparr>)
        \<lparr>part_next := Suc (part_next st)\<rparr>)"


definition update_worklist ::
  "combo_state \<Rightarrow> partition_p \<Rightarrow> partition_p \<Rightarrow> combo_error + combo_state" where
  "update_worklist st Z Z_prime =
     (if on_worklist (part_tab st Z) \<or> n_leader (part_tab st Z_prime) < n_leader (part_tab st Z)
      then add_to_worklist st Z_prime
      else add_to_worklist st Z)"

text \<open>\<^verbatim>\<open>check_partition\<close>: the assertions on the two lists of a partition.\<close>

definition check_partition :: "combo_state \<Rightarrow> partition_p \<Rightarrow> bool" where
  "check_partition st T =
     (list_all (\<lambda>x. \<not> is_follower (node_tab st x) \<and> flagged (node_tab st x) = 0
                     \<and> part (node_tab st x) = T) (Leader (part_tab st T))
      \<and> length (Leader (part_tab st T)) = n_leader (part_tab st T)
      \<and> list_all (\<lambda>x. is_follower (node_tab st x) \<and> flagged (node_tab st x) = 0
                     \<and> part (node_tab st x) = T) (Follower (part_tab st T)))"

text \<open>
  \<^verbatim>\<open>list_del(&node->node_list)\<close> unlinks the node from the list it is on, which is one of the
  two lists of its partition.
\<close>

definition list_del_node_list :: "combo_state \<Rightarrow> node_p \<Rightarrow> combo_state" where
  "list_del_node_list st x =
     (let X = part (node_tab st x); P = part_tab st X
      in set_part st X (P\<lparr>Leader := removeAll x (Leader P), Follower := removeAll x (Follower P)\<rparr>))"

text \<open>The second loop of \<^verbatim>\<open>split_no_followers\<close>: move the nodes of \<open>g\<close> to \<open>Z'\<close>.\<close>

fun move_to_partition ::
  "combo_state \<Rightarrow> partition_p \<Rightarrow> node_p list \<Rightarrow> int \<Rightarrow> int \<times> combo_state" where
  "move_to_partition st Z_prime [] max_input = (max_input, st)"
| "move_to_partition st Z_prime (x # g) max_input =
     (let P = part_tab st Z_prime;
          st1 = set_part st Z_prime (P\<lparr>Leader := Leader P @ [x]\<rparr>);
          st2 = set_node st1 x ((node_tab st1 x)\<lparr>part := Z_prime\<rparr>)
      in move_to_partition st2 Z_prime g
           (if max_user_input (node_tab st x) > max_input then max_user_input (node_tab st x)
            else max_input))"

definition split_no_followers ::
  "combo_state \<Rightarrow> partition_p \<Rightarrow> node_p list \<Rightarrow> combo_error + (partition_p \<times> combo_state)" where
  "split_no_followers st Z g =
     (if g = [] then Inl AssertionFailed
      else if \<not> list_all (\<lambda>x. part (node_tab st x) = Z) g then Inl AssertionFailed
      else
        let st1 = fold (\<lambda>x s. list_del_node_list s x) g st;
            n = length g
        in if \<not> n < n_leader (part_tab st1 Z) then Inl AssertionFailed
           else
             let st2 = set_part st1 Z ((part_tab st1 Z)\<lparr>n_leader := n_leader (part_tab st1 Z) - n\<rparr>);
                 (Z_prime, st3) = new_partition st2;
                 (max_input, st4) = move_to_partition st3 Z_prime g 0;
                 st5 = set_part st4 Z_prime
                         ((part_tab st4 Z_prime)\<lparr>max_user_inputs := max_input, n_leader := n\<rparr>)
             in if \<not> (check_partition st5 Z \<and> check_partition st5 Z_prime) then
                  Inl AssertionFailed
                else
                  let st6 = set_part st5 Z_prime
                              ((part_tab st5 Z_prime)
                                 \<lparr>type_is_T_or_C := type_is_T_or_C (part_tab st5 Z)\<rparr>)
                  in (case update_worklist st6 Z Z_prime of
                        Inl e \<Rightarrow> Inl e
                      | Inr st7 \<Rightarrow> Inr (Z_prime, st7)))"

section \<open>The cprop lists\<close>

text \<open>
  \<^verbatim>\<open>add_to_cprop\<close> calls itself on the Projs of a tuple node and on the Phis of a Block. The
  recursion follows Def-Use edges of the host's graph, so the model counts it down with
  fuel; \<open>None\<close> means the fuel ran out.
\<close>

definition cprop_place :: "combo_state \<Rightarrow> node_p \<Rightarrow> combo_state" where
  "cprop_place st y =
     (if \<not> on_cprop (node_tab st y) then
        let Y = part (node_tab st y);
            irn = node (node_tab st y);
            skipped = skip_Proj st irn;
            P = part_tab st Y;
            st1 = (if is_Cond st skipped \<or> is_Switch st skipped
                   then set_part st Y (P\<lparr>cprop_X := cprop_X P @ [y]\<rparr>)
                   else set_part st Y (P\<lparr>cprop := cprop P @ [y]\<rparr>));
            st2 = set_node st1 y ((node_tab st1 y)\<lparr>on_cprop := True\<rparr>)
        in if \<not> part_on_cprop (part_tab st2 Y) then
             (set_part st2 Y ((part_tab st2 Y)\<lparr>part_on_cprop := True\<rparr>))
               \<lparr>env := (env st2)\<lparr>env_cprop := Y # env_cprop (env st2)\<rparr>\<rparr>
           else st2
      else st)"

fun add_to_cprop :: "nat \<Rightarrow> combo_state \<Rightarrow> node_p \<Rightarrow> combo_state option" where
  "add_to_cprop 0 st y = None"
| "add_to_cprop (Suc fuel) st y =
     (let st1 = cprop_place st y;
          irn = node (node_tab st1 y)
      in if get_irn_mode st1 irn = mode_T then
           fold (\<lambda>proj r. case r of None \<Rightarrow> None
                          | Some s \<Rightarrow> add_to_cprop fuel s (get_irn_node s proj))
             (rev (map fst (irn_out (irg st1 irn)))) (Some st1)
         else if is_Block st1 irn then
           fold (\<lambda>phi r. case r of None \<Rightarrow> None
                         | Some s \<Rightarrow> add_to_cprop fuel s (get_irn_node s phi))
             (irn_block_phis (irg st1 irn)) (Some st1)
         else Some st1)"

text \<open>
  The head of the inner loop of \<^verbatim>\<open>propagate\<close>: take the next node of partition \<open>X\<close> off its
  cprop lists; \<open>None\<close> when both lists are empty and the loop ends.
\<close>

definition propagate_pick :: "combo_state \<Rightarrow> partition_p \<Rightarrow> (node_p \<times> combo_state) option" where
  "propagate_pick st X =
     (let cprop_empty = (cprop (part_tab st X) = []);
          cprop_X_empty = (cprop_X (part_tab st X) = [])
      in if cprop_empty \<and> cprop_X_empty then None
         else
           let x = (if cprop_empty then hd (cprop_X (part_tab st X))
                    else hd (cprop (part_tab st X)));
               P = part_tab st X;
               st1 = (if cprop_empty then set_part st X (P\<lparr>cprop_X := tl (cprop_X P)\<rparr>)
                      else set_part st X (P\<lparr>cprop := tl (cprop P)\<rparr>));
               st2 = set_node st1 x ((node_tab st1 x)\<lparr>on_cprop := False\<rparr>)
           in Some (x, st2))"

section \<open>Apply phase\<close>





























definition host_default :: host_ops where
  "host_default =
     \<lparr>computed_value = (\<lambda>st irn. tarval_bad), tarval_add = (\<lambda>a b. tarval_bad),
      tarval_sub = (\<lambda>a b m. tarval_bad), tarval_eor = (\<lambda>a b. tarval_bad),
      get_tarval_long = (\<lambda>tv. case tv of tarval_val m v \<Rightarrow> v | _ \<Rightarrow> 0),
      optimize_node = (\<lambda>st irn. (irn, st))\<rparr>"

section \<open>Followers and the race splitter\<close>

definition get_mode_one :: "ir_mode \<Rightarrow> ir_tarval" where
  "get_mode_one m = tarval_val m 1"

definition get_mode_all_one :: "ir_mode \<Rightarrow> ir_tarval" where
  "get_mode_all_one m = tarval_val m (- 1)"

fun tarval_is_one :: "ir_tarval \<Rightarrow> bool" where
  "tarval_is_one (tarval_val m v) = (v = 1)"
| "tarval_is_one _ = False"

fun tarval_is_all_one :: "ir_tarval \<Rightarrow> bool" where
  "tarval_is_all_one (tarval_val m v) = (v = - 1)"
| "tarval_is_all_one _ = False"

text \<open>Input \<open>-1\<close> of a node is its block.\<close>

definition get_irn_n_pos :: "combo_state \<Rightarrow> ir_node_p \<Rightarrow> int \<Rightarrow> ir_node_p" where
  "get_irn_n_pos st irn i = (if i < 0 then irn_block (irg st irn) else irn_in (irg st irn) ! nat i)"

subsection \<open>Identity\<close>

fun identity_Phi_loop ::
  "combo_state \<Rightarrow> ir_node_p \<Rightarrow> ir_node_p \<Rightarrow> nat \<Rightarrow> node_p option \<Rightarrow> bool \<times> node_p option" where
  "identity_Phi_loop st phi block 0 n_part = (True, n_part)"
| "identity_Phi_loop st phi block (Suc i) n_part =
     (let pred_X = get_irn_node st (get_Block_cfgpred st block i) in
      if node_type st pred_X = Tv tarval_reachable then
        (let pred = get_irn_node st (get_Phi_pred st phi i) in
         case n_part of
           None \<Rightarrow> identity_Phi_loop st phi block i (Some pred)
         | Some np \<Rightarrow>
             if part (node_tab st np) \<noteq> part (node_tab st pred) then (False, n_part)
             else identity_Phi_loop st phi block i n_part)
      else identity_Phi_loop st phi block i n_part)"

definition identity_Phi :: "combo_state \<Rightarrow> node_p \<Rightarrow> combo_error + node_p" where
  "identity_Phi st n =
     (let phi = node (node_tab st n);
          block = get_nodes_block st phi
      in case identity_Phi_loop st phi block (get_irn_arity st phi) None of
           (False, _) \<Rightarrow> Inr n
         | (True, None) \<Rightarrow> Inl AssertionFailed
         | (True, Some n_part) \<Rightarrow> Inr n_part)"

definition identity_comm_zero_binop :: "combo_state \<Rightarrow> node_p \<Rightarrow> node_p" where
  "identity_comm_zero_binop st n =
     (let op = node (node_tab st n);
          a = get_irn_node st (get_irn_n st op 0);
          b = get_irn_node st (get_irn_n st op 1);
          mode = get_irn_mode st op
      in if mode_is_float mode \<and> irg_fp_strict_algebraic st then n
         else if node_type st a = Tv (get_mode_null mode) then b
         else if node_type st b = Tv (get_mode_null mode) then a
         else n)"

definition identity_shift :: "combo_state \<Rightarrow> node_p \<Rightarrow> node_p" where
  "identity_shift st n =
     (let op = node (node_tab st n);
          b = get_irn_node st (get_irn_n st op 1);
          mode = get_irn_mode st (node (node_tab st b))
      in if node_type st b = Tv (get_mode_null mode) then get_irn_node st (get_irn_n st op 0)
         else n)"

definition identity_Mul :: "combo_state \<Rightarrow> node_p \<Rightarrow> node_p" where
  "identity_Mul st n =
     (let op = node (node_tab st n);
          a = get_irn_node st (get_irn_n st op 0);
          b = get_irn_node st (get_irn_n st op 1);
          mode = get_irn_mode st op
      in if mode_is_float mode \<and> irg_fp_strict_algebraic st then n
         else if node_type st a = Tv (get_mode_one mode) then b
         else if node_type st b = Tv (get_mode_one mode) then a
         else n)"

definition identity_Sub :: "combo_state \<Rightarrow> node_p \<Rightarrow> node_p" where
  "identity_Sub st n =
     (let sub = node (node_tab st n);
          b = get_irn_node st (get_irn_n st sub 1);
          mode = get_irn_mode st sub
      in if mode_is_float mode \<and> irg_fp_strict_algebraic st then n
         else if node_type st b = Tv (get_mode_null mode) then get_irn_node st (get_irn_n st sub 0)
         else n)"

definition identity_And :: "combo_state \<Rightarrow> node_p \<Rightarrow> node_p" where
  "identity_And st n =
     (let andnode = node (node_tab st n);
          a = get_irn_node st (get_irn_n st andnode 0);
          b = get_irn_node st (get_irn_n st andnode 1);
          neutral = get_mode_all_one (get_irn_mode st andnode)
      in if node_type st a = Tv neutral then b
         else if node_type st b = Tv neutral then a
         else n)"

definition identity_Confirm :: "combo_state \<Rightarrow> node_p \<Rightarrow> node_p" where
  "identity_Confirm st n = get_irn_node st (get_irn_n st (node (node_tab st n)) 0)"

definition identity_Mux :: "combo_state \<Rightarrow> node_p \<Rightarrow> node_p" where
  "identity_Mux st n =
     (let mux = node (node_tab st n);
          t = get_irn_node st (get_irn_n st mux 2);
          f = get_irn_node st (get_irn_n st mux 1)
      in if part (node_tab st t) = part (node_tab st f) then t else n)"

definition identity :: "combo_state \<Rightarrow> node_p \<Rightarrow> combo_error + node_p" where
  "identity st n =
     (case get_irn_opcode st (node (node_tab st n)) of
        iro_Phi \<Rightarrow> identity_Phi st n
      | iro_Mul \<Rightarrow> Inr (identity_Mul st n)
      | iro_Add \<Rightarrow> Inr (identity_comm_zero_binop st n)
      | iro_Or \<Rightarrow> Inr (identity_comm_zero_binop st n)
      | iro_Eor \<Rightarrow> Inr (identity_comm_zero_binop st n)
      | iro_Shr \<Rightarrow> Inr (identity_shift st n)
      | iro_Shl \<Rightarrow> Inr (identity_shift st n)
      | iro_Shrs \<Rightarrow> Inr (identity_shift st n)
      | iro_Rotl \<Rightarrow> Inr (identity_shift st n)
      | iro_And \<Rightarrow> Inr (identity_And st n)
      | iro_Sub \<Rightarrow> Inr (identity_Sub st n)
      | iro_Confirm \<Rightarrow> Inr (identity_Confirm st n)
      | iro_Mux \<Rightarrow> Inr (identity_Mux st n)
      | _ \<Rightarrow> Inr n)"

subsection \<open>Follower to leader\<close>

text \<open>
  The inner loop of \<^verbatim>\<open>move_edges_to_leader\<close> that sorts the edge into the leader edges:
  entries from \<open>k\<close> on move one place down until one with a position not below the edge's.
\<close>

function sort_into_leader ::
  "(ir_node_p \<times> int) list \<Rightarrow> ir_node_p \<times> int \<Rightarrow> nat \<Rightarrow> nat \<Rightarrow> (ir_node_p \<times> int) list" where
  "sort_into_leader edges edge k n =
     (if k < n \<and> \<not> snd (edges ! k) \<ge> snd edge
      then sort_into_leader (edges[k - 1 := edges ! k]) edge (Suc k) n
      else edges[k - 1 := edge])"
  by pat_completeness auto
termination
  by (relation "measure (\<lambda>(edges, edge, k, n). n - k)") auto

declare sort_into_leader.simps [simp del]

definition set_irn_out :: "combo_state \<Rightarrow> ir_node_p \<Rightarrow> (ir_node_p \<times> int) list \<Rightarrow> combo_state" where
  "set_irn_out st irn edges = st\<lparr>irg := (irg st)(irn := (irg st irn)\<lparr>irn_out := edges\<rparr>)\<rparr>"

text \<open>The search among the follower edges of \<open>pred\<close> for the edge to \<open>irn\<close> at input \<open>i\<close>.\<close>

function move_edge_scan ::
  "combo_state \<Rightarrow> node_p \<Rightarrow> ir_node_p \<Rightarrow> nat \<Rightarrow> nat \<Rightarrow> combo_state" where
  "move_edge_scan st pred irn i j =
     (let p = node (node_tab st pred);
          edges = irn_out (irg st p);
          n = length edges
      in if j < n_followers (node_tab st pred) then
           (let edge = edges ! j in
            if snd edge = int i \<and> fst edge = irn then
              (let nf = n_followers (node_tab st pred) - 1;
                   st1 = set_node st pred ((node_tab st pred)\<lparr>n_followers := nf\<rparr>);
                   edges1 = edges[j := edges ! nf]
               in set_irn_out st1 p (sort_into_leader edges1 edge (nf + 1) n))
            else move_edge_scan st pred irn i (Suc j))
         else st)"
  by pat_completeness auto
termination
  by (relation "measure (\<lambda>(st, pred, irn, i, j). n_followers (node_tab st pred) - j)") auto

declare move_edge_scan.simps [simp del]

fun move_edges_loop :: "combo_state \<Rightarrow> ir_node_p \<Rightarrow> nat \<Rightarrow> combo_state" where
  "move_edges_loop st irn 0 = st"
| "move_edges_loop st irn (Suc i) =
     move_edges_loop (move_edge_scan st (get_irn_node st (get_irn_n st irn i)) irn i 0) irn i"

definition move_edges_to_leader :: "combo_state \<Rightarrow> node_p \<Rightarrow> combo_state" where
  "move_edges_to_leader st x =
     (let irn = node (node_tab st x) in move_edges_loop st irn (get_irn_arity st irn))"

definition follower_to_leader :: "combo_state \<Rightarrow> node_p \<Rightarrow> combo_error + combo_state" where
  "follower_to_leader st n =
     (if \<not> is_follower (node_tab st n) then Inl AssertionFailed
      else
        let st1 = set_node st n ((node_tab st n)\<lparr>is_follower := False\<rparr>);
            st2 = move_edges_to_leader st1 n;
            st3 = list_del_node_list st2 n;
            X = part (node_tab st3 n);
            P = part_tab st3 X
        in Inr (set_part st3 X (P\<lparr>Leader := Leader P @ [n], n_leader := n_leader P + 1\<rparr>)))"

subsection \<open>The race\<close>

record step_env =
  race_initial :: "node_p list"
  unwalked :: "node_p list"
  walked :: "node_p list"
  index :: nat
  side :: nat

definition is_real_follower :: "combo_state \<Rightarrow> ir_node_p \<Rightarrow> int \<Rightarrow> combo_error + bool" where
  "is_real_follower st irn input =
     (case get_irn_opcode st irn of
        iro_Confirm \<Rightarrow> Inr (input \<noteq> 1)
      | iro_Mux \<Rightarrow> Inr (input \<noteq> 0)
      | iro_Phi \<Rightarrow>
          Inr (node_type st (get_irn_node st (get_irn_n_pos st (get_nodes_block st irn) input))
                 \<noteq> Tv tarval_unreachable)
      | iro_Sub \<Rightarrow> Inr (input \<noteq> 1)
      | iro_Shr \<Rightarrow> Inr (input \<noteq> 1)
      | iro_Shl \<Rightarrow> Inr (input \<noteq> 1)
      | iro_Shrs \<Rightarrow> Inr (input \<noteq> 1)
      | iro_Rotl \<Rightarrow> Inr (input \<noteq> 1)
      | iro_Add \<Rightarrow>
          (let t = node_type st (get_irn_node st (get_irn_n_pos st irn input))
           in Inr (\<not> (is_tarval t \<and> tarval_is_null (the_tv t))))
      | iro_Or \<Rightarrow>
          (let t = node_type st (get_irn_node st (get_irn_n_pos st irn input))
           in Inr (\<not> (is_tarval t \<and> tarval_is_null (the_tv t))))
      | iro_Eor \<Rightarrow>
          (let t = node_type st (get_irn_node st (get_irn_n_pos st irn input))
           in Inr (\<not> (is_tarval t \<and> tarval_is_null (the_tv t))))
      | iro_Mul \<Rightarrow>
          (let t = node_type st (get_irn_node st (get_irn_n_pos st irn input))
           in Inr (\<not> (is_tarval t \<and> tarval_is_one (the_tv t))))
      | iro_And \<Rightarrow>
          (let t = node_type st (get_irn_node st (get_irn_n_pos st irn input))
           in Inr (\<not> (is_tarval t \<and> tarval_is_all_one (the_tv t))))
      | _ \<Rightarrow> Inl AssertionFailed)"

text \<open>
  The walk of \<^verbatim>\<open>step\<close> over the follower edges of the first unwalked node \<open>n\<close>, from
  \<open>idx\<close> on: it ends at a follower \<open>m\<close> that this side reaches first, or at the end of the
  follower edges.
\<close>

function step_edges ::
  "combo_state \<Rightarrow> nat \<Rightarrow> node_p \<Rightarrow> nat \<Rightarrow> combo_error + (node_p option \<times> nat \<times> combo_state)" where
  "step_edges st sd n idx =
     (if idx < n_followers (node_tab st n) then
        (let edge = irn_out (irg st (node (node_tab st n))) ! idx;
             m = get_irn_node st (fst edge)
         in if \<not> is_follower (node_tab st m) then Inl AssertionFailed
            else
              case is_real_follower st (node (node_tab st m)) (snd edge) of
                Inl e \<Rightarrow> Inl e
              | Inr False \<Rightarrow> step_edges st sd n (Suc idx)
              | Inr True \<Rightarrow>
                  if part (node_tab st m) \<noteq> part (node_tab st n) then
                    step_edges st sd n (Suc idx)
                  else if and (flagged (node_tab st m)) sd = 0 then
                    (let st1 = set_node st m
                                 ((node_tab st m)\<lparr>flagged := or (flagged (node_tab st m)) sd\<rparr>)
                     in if flagged (node_tab st1 m) \<noteq> 3 then Inr (Some m, Suc idx, st1)
                        else step_edges st1 sd n (Suc idx))
                  else step_edges st sd n (Suc idx))
      else Inr (None, idx, st))"
  by pat_completeness auto
termination
  by (relation "measure (\<lambda>(st, sd, n, idx). n_followers (node_tab st n) - idx)")
     (auto simp: set_node_def)

declare step_edges.simps [simp del]

function step_walk ::
  "combo_state \<Rightarrow> step_env \<Rightarrow> combo_error + (bool \<times> step_env \<times> combo_state)" where
  "step_walk st senv =
     (case unwalked senv of
        [] \<Rightarrow> Inr (True, senv, st)
      | n # rest \<Rightarrow>
          (case step_edges st (side senv) n (index senv) of
             Inl e \<Rightarrow> Inl e
           | Inr (Some m, idx, st1) \<Rightarrow>
               Inr (False, senv\<lparr>unwalked := n # m # rest, index := idx\<rparr>, st1)
           | Inr (None, idx, st1) \<Rightarrow>
               step_walk st1 (senv\<lparr>unwalked := rest, walked := n # walked senv, index := 0\<rparr>)))"
  by pat_completeness auto
termination
  by (relation "measure (\<lambda>(st, senv). length (unwalked senv))") auto

declare step_walk.simps [simp del]

definition step ::
  "combo_state \<Rightarrow> step_env \<Rightarrow> combo_error + (bool \<times> step_env \<times> combo_state)" where
  "step st senv =
     (case race_initial senv of
        n # rest \<Rightarrow> Inr (False, senv\<lparr>race_initial := rest, unwalked := n # unwalked senv\<rparr>, st)
      | [] \<Rightarrow> step_walk st senv)"

text \<open>
  The loop of the race, a \<^verbatim>\<open>for (;;)\<close>: the two sides step in turn until one is done. The
  loop has no bound, so the model counts the rounds down with fuel; \<open>None\<close> means the fuel
  ran out.
\<close>

fun race ::
  "nat \<Rightarrow> combo_state \<Rightarrow> step_env \<Rightarrow> step_env
     \<Rightarrow> (combo_error + (nat \<times> step_env \<times> step_env \<times> combo_state)) option" where
  "race 0 st senv0 senv1 = None"
| "race (Suc fuel) st senv0 senv1 =
     (case step st senv0 of
        Inl e \<Rightarrow> Some (Inl e)
      | Inr (True, s0, st1) \<Rightarrow> Some (Inr (0, s0, senv1, st1))
      | Inr (False, s0, st1) \<Rightarrow>
          (case step st1 senv1 of
             Inl e \<Rightarrow> Some (Inl e)
           | Inr (True, s1, st2) \<Rightarrow> Some (Inr (1, s0, s1, st2))
           | Inr (False, s1, st2) \<Rightarrow> race fuel st2 s0 s1))"

fun clear_flags :: "combo_state \<Rightarrow> node_p list \<Rightarrow> combo_error + (bool \<times> combo_state)" where
  "clear_flags st [] = Inr (False, st)"
| "clear_flags st (n # ns) =
     (case (if flagged (node_tab st n) = 3 then follower_to_leader st n else Inr st) of
        Inl e \<Rightarrow> Inl e
      | Inr st1 \<Rightarrow>
          (case clear_flags (set_node st1 n ((node_tab st1 n)\<lparr>flagged := 0\<rparr>)) ns of
             Inl e \<Rightarrow> Inl e
           | Inr (res, st2) \<Rightarrow> Inr (res \<or> flagged (node_tab st n) = 3, st2)))"

text \<open>The loop of \<^verbatim>\<open>split\<close> that moves the walked nodes of the winner to \<open>X'\<close>.\<close>

fun move_walked ::
  "combo_state \<Rightarrow> partition_p \<Rightarrow> node_p list \<Rightarrow> nat \<Rightarrow> int \<Rightarrow> nat \<times> int \<times> combo_state" where
  "move_walked st X_prime [] n max_input = (n, max_input, st)"
| "move_walked st X_prime (x # xs) n max_input =
     (let st1 = list_del_node_list st x;
          st2 = set_node st1 x ((node_tab st1 x)\<lparr>part := X_prime\<rparr>);
          P = part_tab st2 X_prime;
          st3 = (if is_follower (node_tab st2 x)
                 then set_part st2 X_prime (P\<lparr>Follower := Follower P @ [x]\<rparr>)
                 else set_part st2 X_prime (P\<lparr>Leader := Leader P @ [x]\<rparr>))
      in move_walked st3 X_prime xs
           (if is_follower (node_tab st2 x) then n else Suc n)
           (if max_user_input (node_tab st x) > max_input then max_user_input (node_tab st x)
            else max_input))"

text \<open>
  The loop of \<^verbatim>\<open>split\<close> over the followers of \<open>X'\<close>: a follower that has lost its
  congruence becomes a leader.
\<close>

fun recheck_followers ::
  "combo_state \<Rightarrow> node_p list \<Rightarrow> combo_error + (bool \<times> combo_state)" where
  "recheck_followers st [] = Inr (False, st)"
| "recheck_followers st (x # xs) =
     (case identity st x of
        Inl e \<Rightarrow> Inl e
      | Inr y \<Rightarrow>
          (case (if y = x then follower_to_leader st x else Inr st) of
             Inl e \<Rightarrow> Inl e
           | Inr st1 \<Rightarrow>
               (case recheck_followers st1 xs of
                  Inl e \<Rightarrow> Inl e
                | Inr (res, st2) \<Rightarrow> Inr (res \<or> y = x, st2))))"

definition cprop_push :: "combo_state \<Rightarrow> partition_p \<Rightarrow> combo_state" where
  "cprop_push st X =
     (if \<not> part_on_cprop (part_tab st X) then
        (set_part st X ((part_tab st X)\<lparr>part_on_cprop := True\<rparr>))
          \<lparr>env := (env st)\<lparr>env_cprop := X # env_cprop (env st)\<rparr>\<rparr>
      else st)"

text \<open>
  \<^verbatim>\<open>split\<close> after the race. The result is the partition that holds the nodes of \<open>gg\<close>, the
  new value of \<^verbatim>\<open>*pX\<close>, and the state.
\<close>

definition bind_err :: "'e + 'a \<Rightarrow> ('a \<Rightarrow> 'e + 'b) \<Rightarrow> 'e + 'b" where
  "bind_err r f = (case r of Inl e \<Rightarrow> Inl e | Inr x \<Rightarrow> f x)"

definition split_finish ::
  "combo_state \<Rightarrow> partition_p \<Rightarrow> nat \<Rightarrow> step_env \<Rightarrow> step_env
     \<Rightarrow> combo_error + (partition_p \<times> partition_p \<times> combo_state)" where
  "split_finish st X winner senv0 senv1 =
     (let sw = (if winner = 0 then senv0 else senv1) in
      if race_initial sw \<noteq> [] \<or> unwalked sw \<noteq> [] then Inl AssertionFailed
      else
        bind_err (clear_flags st (unwalked senv0)) (\<lambda>(c1, st1).
        bind_err (clear_flags st1 (walked senv0)) (\<lambda>(c2, st2).
        bind_err (clear_flags st2 (unwalked senv1)) (\<lambda>(c3, st3).
        bind_err (clear_flags st3 (walked senv1)) (\<lambda>(c4, st4).
          let t_winner = (if winner = 0 then c1 \<or> c2 else c3 \<or> c4);
              t_other = (if winner = 0 then c3 \<or> c4 else c1 \<or> c2);
              (X_prime, st5) = new_partition st4;
              (n, max_input, st6) = move_walked st5 X_prime (walked sw) 0 0;
              st7 = set_part st6 X_prime
                      ((part_tab st6 X_prime)\<lparr>n_leader := n, max_user_inputs := max_input\<rparr>);
              st8 = set_part st7 X
                      ((part_tab st7 X)\<lparr>n_leader := n_leader (part_tab st7 X) - n\<rparr>);
              st9 = set_part st8 X_prime
                      ((part_tab st8 X_prime)
                         \<lparr>type_is_T_or_C := type_is_T_or_C (part_tab st8 X)\<rparr>)
          in bind_err (recheck_followers st9 (Follower (part_tab st9 X_prime))) (\<lambda>(t_new, st10).
               if \<not> (check_partition st10 X \<and> check_partition st10 X_prime) then
                 Inl AssertionFailed
               else
                 bind_err (add_to_worklist st10 X_prime) (\<lambda>st11.
                   let st12 = (if t_winner \<or> t_new then cprop_push st11 X_prime else st11);
                       st13 = (if t_other then cprop_push st12 X else st12)
                   in if winner \<noteq> 0 then Inr (X, X_prime, st13)
                      else Inr (X_prime, X, st13))))))))"

definition split ::
  "nat \<Rightarrow> combo_state \<Rightarrow> partition_p \<Rightarrow> node_p list
     \<Rightarrow> (combo_error + (partition_p \<times> partition_p \<times> combo_state)) option" where
  "split fuel st X gg =
     (if Follower (part_tab st X) = [] then
        Some (case split_no_followers st X gg of
                Inl e \<Rightarrow> Inl e
              | Inr (Z_prime, st1) \<Rightarrow> Inr (Z_prime, X, st1))
      else if \<not> list_all (\<lambda>x. part (node_tab st x) = X \<and> \<not> is_follower (node_tab st x)) gg
      then Some (Inl AssertionFailed)
      else
        let P = part_tab st X;
            rest = filter (\<lambda>x. x \<notin> set gg) (Leader P);
            st0 = set_part st X (P\<lparr>Leader := gg @ rest\<rparr>);
            senv0 = \<lparr>race_initial = rev gg, unwalked = [], walked = [], index = 0, side = 1\<rparr>;
            senv1 = \<lparr>race_initial = rev rest, unwalked = [], walked = [], index = 0, side = 2\<rparr>
        in case race fuel st0 senv0 senv1 of
             None \<Rightarrow> None
           | Some (Inl e) \<Rightarrow> Some (Inl e)
           | Some (Inr (winner, s0, s1, st1)) \<Rightarrow> Some (split_finish st1 X winner s0 s1))"

section \<open>Notions used in the statements\<close>

subsection \<open>Meet of the inputs of a Phi\<close>

text \<open>
  The types of the inputs among the first \<open>k\<close> whose control-flow predecessor is not
  Unreachable and which are not Top themselves, in input order: what the loop of
  \<^verbatim>\<open>compute_Phi\<close> looks at.
\<close>

definition phi_live_inputs ::
  "combo_state \<Rightarrow> ir_node_p \<Rightarrow> ir_node_p \<Rightarrow> nat \<Rightarrow> lattice_elem_t list" where
  "phi_live_inputs st phi blk k =
     map (\<lambda>i. get_node_type st (get_Phi_pred st phi i))
       (filter (\<lambda>i. get_node_type st (get_Block_cfgpred st blk i) \<noteq> Tv tarval_unreachable
                    \<and> get_node_type st (get_Phi_pred st phi i) \<noteq> Tv tarval_top) [0..<k])"

text \<open>
  The specification's words: the inputs whose control-flow predecessor is Reachable,
  ignoring inputs of type Top.
\<close>

definition phi_contributing :: "combo_state \<Rightarrow> ir_node_p \<Rightarrow> ir_node_p \<Rightarrow> lattice_elem_t list" where
  "phi_contributing st phi blk =
     map (\<lambda>i. get_node_type st (get_Phi_pred st phi i))
       (filter (\<lambda>i. get_node_type st (get_Block_cfgpred st blk i) = Tv tarval_reachable
                    \<and> get_node_type st (get_Phi_pred st phi i) \<noteq> Tv tarval_top)
          [0..<get_irn_arity st phi])"

text \<open>
  The specification's meet of the contributing inputs: Top when there is none, Bottom when
  one of them is Bottom or two of them differ, and their common value otherwise.
\<close>

definition phi_meet :: "lattice_elem_t list \<Rightarrow> lattice_elem_t" where
  "phi_meet ts =
     (if ts = [] then Tv tarval_top
      else if Tv tarval_bottom \<in> set ts \<or> (\<exists>a \<in> set ts. \<exists>b \<in> set ts. a \<noteq> b)
      then Tv tarval_bottom
      else hd ts)"

text \<open>The loop of \<^verbatim>\<open>compute_Phi\<close> on the list of the types it looks at.\<close>

fun phi_fold :: "lattice_elem_t list \<Rightarrow> lattice_elem_t \<Rightarrow> lattice_elem_t" where
  "phi_fold [] ty = ty"
| "phi_fold (t # ts) ty =
     (if t = Tv tarval_bottom then Tv tarval_bottom
      else if ty = Tv tarval_top then phi_fold ts t
      else if ty \<noteq> t then Tv tarval_bottom
      else phi_fold ts ty)"

subsection \<open>Order of the cprop lists\<close>

text \<open>A Cond, a Switch, or a Proj of one: the test of \<^verbatim>\<open>add_to_cprop\<close>.\<close>

definition is_cond_like :: "combo_state \<Rightarrow> node_p \<Rightarrow> bool" where
  "is_cond_like st y =
     (is_Cond st (skip_Proj st (node (node_tab st y)))
      \<or> is_Switch st (skip_Proj st (node (node_tab st y))))"

text \<open>
  In every partition of the arena, the ordinary cprop list holds no Cond, Switch or Proj of
  one, and the \<open>cprop_X\<close> list holds nothing else.
\<close>

definition cprop_sorted :: "combo_state \<Rightarrow> bool" where
  "cprop_sorted st =
     list_all (\<lambda>X. list_all (\<lambda>y. \<not> is_cond_like st y) (cprop (part_tab st X))
                   \<and> list_all (is_cond_like st) (cprop_X (part_tab st X)))
       [0..<part_next st]"

subsection \<open>Rewrites of the apply phase\<close>






subsection \<open>Frame of the worklist\<close>

text \<open>A step of the pass that leaves the worklist and the partition counter as they are.\<close>

definition wl_frame :: "combo_state \<Rightarrow> combo_state \<Rightarrow> bool" where
  "wl_frame st st' = (worklist (env st') = worklist (env st) \<and> part_next st' = part_next st)"

section \<open>Example graphs\<close>

text \<open>Stores given by lists: the node at address \<open>i\<close> is the \<open>i\<close>-th entry.\<close>

definition ir_node_default :: ir_node where
  "ir_node_default =
     \<lparr>irn_op = iro_Bad, irn_mode = mode_Is, irn_block = 0, irn_in = [], irn_out = [],
      irn_pinned = op_pin_state_floats, irn_link = None, irn_proj = 0, irn_relation = 0,
      irn_tarval = tarval_bad, irn_symconst_kind = symconst_addr_ent, irn_symbol = 0,
      irn_block_entity = None, irn_block_phis = [], irn_backedge = [],
      irn_switch_table = []\<rparr>"

definition node_default :: node_t where
  "node_default =
     \<lparr>node = 0, part = 0, type = Tv tarval_top, max_user_input = 0, next_edge = 0,
      n_followers = 0, on_touched = False, on_cprop = False, on_fallen = False,
      is_follower = False, flagged = 0\<rparr>"

definition partition_default :: partition_t where
  "partition_default =
     \<lparr>Leader = [], Follower = [], cprop = [], cprop_X = [], n_leader = 0, n_touched = 0,
      max_user_inputs = 0, on_worklist = False, part_on_touched = False,
      part_on_cprop = False, type_is_T_or_C = False\<rparr>"

definition env_default :: environment_t where
  "env_default =
     \<lparr>worklist = [], env_cprop = [], touched = [], initial = None, kept_memory = [],
      end_idx = -1, lambda_input = 0, modified = False, unopt_cf = False,
      commutative = False, opt_unknown = False\<rparr>"

definition store_of :: "'a \<Rightarrow> 'a list \<Rightarrow> nat \<Rightarrow> 'a" where
  "store_of d xs i = (if i < length xs then xs ! i else d)"

text \<open>
  A state over given stores. The start block is at address 0; the end block and the End
  node are read by \<^verbatim>\<open>apply_cf\<close> only, and the example that runs it sets all three.
\<close>

definition mk_state :: "ir_node list \<Rightarrow> node_t list \<Rightarrow> partition_t list \<Rightarrow> combo_state" where
  "mk_state irns nodes parts =
     \<lparr>irg = store_of ir_node_default irns, irg_next = length irns, irg_start_block = 0,
      irg_end_block = 0, irg_end = 0, irg_fp_strict_algebraic = False,
      exchanged = [], merged = [], node_tab = store_of node_default nodes,
      part_tab = store_of partition_default parts, part_next = length parts,
      env = env_default, tarval_UNKNOWN = tarval_bad\<rparr>"

text \<open>
  A start block, a selector of mode b, a Cond on it, the two Projs of the Cond (false at
  address 3, true at address 4) and a Call (5); every node record still has type Top.
\<close>

definition cond_graph :: "ir_node list" where
  "cond_graph =
     [ir_node_default\<lparr>irn_op := iro_Block, irn_mode := mode_BB, irn_link := Some 0\<rparr>,
      ir_node_default\<lparr>irn_op := iro_Unknown, irn_mode := mode_b, irn_out := [(2, 0)],
         irn_link := Some 1\<rparr>,
      ir_node_default\<lparr>irn_op := iro_Cond, irn_mode := mode_T, irn_in := [1],
         irn_out := [(3, 0), (4, 0)], irn_link := Some 2, irn_pinned := op_pin_state_pinned\<rparr>,
      ir_node_default\<lparr>irn_op := iro_Proj, irn_mode := mode_X, irn_in := [2], irn_link := Some 3,
         irn_proj := pn_Cond_false\<rparr>,
      ir_node_default\<lparr>irn_op := iro_Proj, irn_mode := mode_X, irn_in := [2], irn_link := Some 4,
         irn_proj := pn_Cond_true\<rparr>,
      ir_node_default\<lparr>irn_op := iro_Call, irn_mode := mode_T, irn_link := Some 5,
         irn_pinned := op_pin_state_pinned\<rparr>]"

definition cond_nodes :: "node_t list" where
  "cond_nodes = map (\<lambda>i. node_default\<lparr>node := i\<rparr>) [0, 1, 2, 3, 4, 5]"

definition cond_state :: combo_state where
  "cond_state = combo_setup (mk_state cond_graph cond_nodes [partition_default])"

text \<open>
  The same graph during propagation: the selector waits on the ordinary cprop list of
  partition 0 and the false Proj on its \<open>cprop_X\<close> list.
\<close>

definition cprop_state :: combo_state where
  "cprop_state =
     (let st = cond_state;
          st1 = set_part st 0 ((part_tab st 0)\<lparr>cprop := [1], cprop_X := [3],
                  part_on_cprop := True\<rparr>);
          st2 = set_node st1 1 ((node_tab st1 1)\<lparr>on_cprop := True\<rparr>);
          st3 = set_node st2 3 ((node_tab st2 3)\<lparr>on_cprop := True\<rparr>)
      in st3\<lparr>env := (env st3)\<lparr>env_cprop := [0]\<rparr>\<rparr>)"

text \<open>
  A join block (address 0) reached from an Unreachable Jmp (1) and a Reachable Jmp (2),
  with the Phi (5) of the constants 7 (3) and 5 (4).
\<close>

definition phi_graph :: "ir_node list" where
  "phi_graph =
     [ir_node_default\<lparr>irn_op := iro_Block, irn_mode := mode_BB, irn_in := [1, 2],
         irn_link := Some 0, irn_block_phis := [5]\<rparr>,
      ir_node_default\<lparr>irn_op := iro_Jmp, irn_mode := mode_X, irn_block := 6, irn_link := Some 1\<rparr>,
      ir_node_default\<lparr>irn_op := iro_Jmp, irn_mode := mode_X, irn_block := 7, irn_link := Some 2\<rparr>,
      ir_node_default\<lparr>irn_op := iro_Const, irn_tarval := tarval_val mode_Is 7,
         irn_link := Some 3\<rparr>,
      ir_node_default\<lparr>irn_op := iro_Const, irn_tarval := tarval_val mode_Is 5,
         irn_link := Some 4\<rparr>,
      ir_node_default\<lparr>irn_op := iro_Phi, irn_in := [3, 4], irn_pinned := op_pin_state_pinned,
         irn_link := Some 5\<rparr>]"

definition phi_nodes :: "node_t list" where
  "phi_nodes =
     [node_default\<lparr>node := 0, type := Tv tarval_reachable\<rparr>,
      node_default\<lparr>node := 1, type := Tv tarval_unreachable\<rparr>,
      node_default\<lparr>node := 2, type := Tv tarval_reachable\<rparr>,
      node_default\<lparr>node := 3, type := Tv (tarval_val mode_Is 7)\<rparr>,
      node_default\<lparr>node := 4, type := Tv (tarval_val mode_Is 5)\<rparr>,
      node_default\<lparr>node := 5\<rparr>]"

definition phi_state :: combo_state where
  "phi_state = combo_setup (mk_state phi_graph phi_nodes [partition_default])"










text \<open>
  A partition (0) of four leaders without followers that is already on the worklist, to be
  split by three of them.
\<close>

definition split_state :: combo_state where
  "split_state =
     (let st = mk_state [] (map (\<lambda>i. node_default\<lparr>node := i\<rparr>) [0, 1, 2, 3])
                 [partition_default\<lparr>Leader := [0, 1, 2, 3], n_leader := 4, on_worklist := True\<rparr>]
      in st\<lparr>env := (env st)\<lparr>worklist := [0]\<rparr>\<rparr>)"

text \<open>The same partition when it is not on the worklist.\<close>

definition split_state_off :: combo_state where
  "split_state_off =
     mk_state [] (map (\<lambda>i. node_default\<lparr>node := i\<rparr>) [0, 1, 2, 3])
       [partition_default\<lparr>Leader := [0, 1, 2, 3], n_leader := 4\<rparr>]"

text \<open>
  A partition (0) of the leaders 0, 1, 2 and of two Confirm nodes (3, 4) that follow
  leader 2, to be split by the leaders 0 and 1.
\<close>

definition rsplit_graph :: "ir_node list" where
  "rsplit_graph =
     [ir_node_default\<lparr>irn_op := iro_Conv, irn_link := Some 0\<rparr>,
      ir_node_default\<lparr>irn_op := iro_Conv, irn_link := Some 1\<rparr>,
      ir_node_default\<lparr>irn_op := iro_Conv, irn_out := [(3, 0), (4, 0)], irn_link := Some 2\<rparr>,
      ir_node_default\<lparr>irn_op := iro_Confirm, irn_in := [2, 5], irn_link := Some 3\<rparr>,
      ir_node_default\<lparr>irn_op := iro_Confirm, irn_in := [2, 5], irn_link := Some 4\<rparr>,
      ir_node_default\<lparr>irn_op := iro_Const, irn_out := [(3, 1), (4, 1)], irn_link := Some 5\<rparr>]"

definition rsplit_nodes :: "node_t list" where
  "rsplit_nodes =
     [node_default\<lparr>node := 0, type := Tv tarval_bottom\<rparr>,
      node_default\<lparr>node := 1, type := Tv tarval_bottom\<rparr>,
      node_default\<lparr>node := 2, type := Tv tarval_bottom, n_followers := 2\<rparr>,
      node_default\<lparr>node := 3, type := Tv tarval_bottom, is_follower := True\<rparr>,
      node_default\<lparr>node := 4, type := Tv tarval_bottom, is_follower := True\<rparr>,
      node_default\<lparr>node := 5, part := 1, type := Tv (tarval_val mode_Is 0)\<rparr>]"

definition rsplit_state :: combo_state where
  "rsplit_state =
     mk_state rsplit_graph rsplit_nodes
       [partition_default\<lparr>Leader := [0, 1, 2], Follower := [3, 4], n_leader := 3\<rparr>,
        partition_default\<lparr>Leader := [5], n_leader := 1\<rparr>]"

text \<open>
  The states that the split of this partition goes through: after the race, after the
  flags of the two sides are cleared, after the new partition is made, and after the walked
  nodes are moved to it.
\<close>

definition rsplit_raced :: combo_state where
  "rsplit_raced =
     set_node (set_part rsplit_state 0 ((part_tab rsplit_state 0)\<lparr>Leader := [0, 1, 2]\<rparr>)) 3
       ((node_tab rsplit_state 3)\<lparr>flagged := 2\<rparr>)"

definition rsplit_senv0 :: step_env where
  "rsplit_senv0 = \<lparr>race_initial = [], unwalked = [], walked = [1, 0], index = 0, side = 1\<rparr>"

definition rsplit_senv1 :: step_env where
  "rsplit_senv1 = \<lparr>race_initial = [], unwalked = [2, 3], walked = [], index = 1, side = 2\<rparr>"

definition rsplit_walked0 :: combo_state where
  "rsplit_walked0 = snd (projr (clear_flags rsplit_raced [Suc 0, 0]))"

definition rsplit_cleared :: combo_state where
  "rsplit_cleared = snd (projr (clear_flags rsplit_walked0 [2, 3]))"

definition rsplit_new :: combo_state where
  "rsplit_new = snd (new_partition rsplit_cleared)"

definition rsplit_moved :: combo_state where
  "rsplit_moved = snd (snd (move_walked rsplit_new 2 [Suc 0, 0] 0 0))"

section \<open>Verification\<close>

lemmas lattice_consts = tarval_top_def tarval_bottom_def tarval_unreachable_def

lemmas example_defs =
  mk_state_def store_of_def ir_node_default_def node_default_def partition_default_def
  env_default_def

subsection \<open>Proj of Cond\<close>

text \<open>
  C1 (amended). For a Proj of a Cond whose type is not yet Reachable, \<open>compute_Proj_Cond\<close>
  sets the type from the selector: a Bottom selector makes both Projs Reachable; the
  constant true (false) makes the true (false) Proj Reachable and the other Unreachable; a
  Top selector makes the true Proj Unreachable, and the false Proj Reachable when
  \<open>tarval_UNKNOWN\<close> is Top (the setting of \<open>combo\<close>) and Unreachable otherwise. A Proj that
  is already Reachable is left unchanged whatever the selector.
\<close>

theorem compute_Proj_Cond_by_selector:
  fixes st :: combo_state and n :: node_p and cond :: ir_node_p
  defines "pnc \<equiv> get_Proj_proj st (node (node_tab st n))"
  defines "s \<equiv> node_type st (get_irn_node st (get_Cond_selector st cond))"
  shows "(node_type st n = Tv tarval_reachable \<longrightarrow> compute_Proj_Cond st n cond = Inr st)
    \<and> (node_type st n \<noteq> Tv tarval_reachable \<and> (pnc = pn_Cond_true \<or> pnc = pn_Cond_false) \<longrightarrow>
        (s = Tv tarval_top \<longrightarrow>
           compute_Proj_Cond st n cond =
             Inr (set_node_type st n
               (Tv (if pnc = pn_Cond_false \<and> tarval_UNKNOWN st = tarval_top
                    then tarval_reachable else tarval_unreachable))))
      \<and> (s = Tv tarval_bottom \<longrightarrow>
           compute_Proj_Cond st n cond = Inr (set_node_type st n (Tv tarval_reachable)))
      \<and> (s = Tv tarval_b_true \<longrightarrow>
           compute_Proj_Cond st n cond =
             Inr (set_node_type st n
               (Tv (if pnc = pn_Cond_true then tarval_reachable else tarval_unreachable))))
      \<and> (s = Tv tarval_b_false \<longrightarrow>
           compute_Proj_Cond st n cond =
             Inr (set_node_type st n
               (Tv (if pnc = pn_Cond_false then tarval_reachable else tarval_unreachable)))))"
  unfolding pnc_def s_def
  by (auto simp: compute_Proj_Cond_def Let_def lattice_consts pn_Cond_true_def pn_Cond_false_def)

lemma cond_state_facts:
  "tarval_UNKNOWN cond_state = tarval_top"
  "node_type cond_state 3 = Tv tarval_top"
  "node_type cond_state 4 = Tv tarval_top"
  "get_Proj_proj cond_state (node (node_tab cond_state 3)) = pn_Cond_false"
  "get_Proj_proj cond_state (node (node_tab cond_state 4)) = pn_Cond_true"
  "node_type cond_state (get_irn_node cond_state (get_Cond_selector cond_state 2)) = Tv tarval_top"
  by (simp_all add: cond_state_def combo_setup_def combo_select_UNKNOWN_def
      combo_set_options_def cond_graph_def cond_nodes_def example_defs node_type_def
      get_Proj_proj_def get_irn_node_def get_Cond_selector_def get_irn_n_def)

theorem compute_Proj_Cond_by_selector_witness:
  "compute_Proj_Cond cond_state 4 2 = Inr (set_node_type cond_state 4 (Tv tarval_unreachable))"
  using compute_Proj_Cond_by_selector [of cond_state 4 2]
  by (simp add: cond_state_facts lattice_consts pn_Cond_true_def pn_Cond_false_def)

text \<open>
  The claim as stated fails on the false Proj: in the state \<open>combo\<close> sets up, with the
  selector at Top, the false Proj becomes Reachable.
\<close>

theorem compute_Proj_Cond_top_selector_counterexample:
  "node_type cond_state 3 \<noteq> Tv tarval_reachable
   \<and> get_Proj_proj cond_state (node (node_tab cond_state 3)) = pn_Cond_false
   \<and> node_type cond_state (get_irn_node cond_state (get_Cond_selector cond_state 2)) = Tv tarval_top
   \<and> compute_Proj_Cond cond_state 3 2 = Inr (set_node_type cond_state 3 (Tv tarval_reachable))
   \<and> Tv tarval_reachable \<noteq> Tv tarval_unreachable"
  by (simp add: compute_Proj_Cond_def Let_def cond_state_facts lattice_consts
      pn_Cond_true_def pn_Cond_false_def)

subsection \<open>Unknown\<close>

text \<open>
  C2 (amended). In the configuration that \<open>combo\<close> sets up (\<open>opt_unknown\<close> is set), the
  transfer function of an Unknown node assigns Top; it assigns Bottom (\<open>tarval_bad\<close>) only in
  the configuration with \<open>opt_unknown\<close> cleared, which the entry point does not select.
\<close>

theorem compute_Unknown_default_top:
  "node_type (compute_Unknown (combo_setup st) n) n = Tv tarval_top
   \<and> node_type (compute_Unknown
        (combo_select_UNKNOWN (st\<lparr>env := (env st)\<lparr>opt_unknown := False\<rparr>\<rparr>)) n) n
       = Tv tarval_bottom"
  by (simp add: compute_Unknown_def combo_setup_def combo_select_UNKNOWN_def
      combo_set_options_def set_node_type_def node_type_def lattice_consts)

theorem compute_Unknown_default_counterexample:
  "node_type (compute_Unknown cond_state 1) 1 \<noteq> Tv tarval_bottom"
  by (simp add: compute_Unknown_def cond_state_facts set_node_type_def node_type_def
      lattice_consts)

subsection \<open>Monotonicity check\<close>

text \<open>
  C3 (amended). The check accepts a transition from \<open>x\<close> to \<open>y\<close> exactly when \<open>x = y\<close>, or
  \<open>x\<close> is Top, or \<open>y\<close> is Bottom, or \<open>y\<close> is Reachable; every other transition panics.
\<close>

theorem verify_type_accepts:
  "verify_type x nd =
     (if x = type nd \<or> x = Tv tarval_top \<or> type nd = Tv tarval_bottom
         \<or> type nd = Tv tarval_reachable
      then Inr () else Inl Panic)"
  by (simp add: verify_type_def)

text \<open>The transition from Bottom to Reachable is accepted, outside the three cases of the claim.\<close>

theorem verify_type_reachable_counterexample:
  "verify_type (Tv tarval_bottom) (node_default\<lparr>type := Tv tarval_reachable\<rparr>) = Inr ()
   \<and> \<not> (Tv tarval_bottom = Tv tarval_top
        \<or> type (node_default\<lparr>type := Tv tarval_reachable\<rparr>) = Tv tarval_bottom
        \<or> Tv tarval_bottom = type (node_default\<lparr>type := Tv tarval_reachable\<rparr>))"
  by (simp add: verify_type_def node_default_def lattice_consts)

subsection \<open>The dispatcher and the algebraic transfer functions\<close>

lemma node_type_set_node_type [simp]: "node_type (set_node_type st n t) n = t"
  by (simp add: node_type_def set_node_type_def)

text \<open>
  C9. For a node that is not a Block and whose operation (of the node itself, or of the
  predecessor of a Proj) is pinned, if the block of the node has type Unreachable, then
  \<open>compute\<close> sets the type of the node to Top and returns that state: the result does not
  depend on the opcode or on the transfer function installed for it.
\<close>

theorem compute_pinned_unreachable_block:
  fixes st :: combo_state and n :: node_p
  defines "irn \<equiv> node (node_tab st n)"
  assumes "\<not> is_Block st irn"
    and "get_irn_pinned st (skip_Proj st irn) = op_pin_state_pinned"
    and "node_type st (get_irn_node st (get_nodes_block st irn)) = Tv tarval_unreachable"
  shows "compute H st n = Inr (set_node_type st n (Tv tarval_top))"
  using assms by (simp add: compute_def Let_def)


subsection \<open>Phi\<close>

lemma compute_Phi_loop_fold:
  "compute_Phi_loop st phi blk k ty = phi_fold (rev (phi_live_inputs st phi blk k)) ty"
proof (induction k arbitrary: ty)
  case 0
  show ?case by (simp add: phi_live_inputs_def)
next
  case (Suc k)
  show ?case
    by (simp add: Let_def Suc phi_live_inputs_def get_node_type_def)
qed

lemma phi_fold_const:
  assumes "Tv tarval_top \<notin> set ts" "c \<noteq> Tv tarval_top" "c \<noteq> Tv tarval_bottom"
  shows "phi_fold ts c = phi_meet (c # ts)"
  using assms
proof (induction ts)
  case Nil
  then show ?case by (simp add: phi_meet_def)
next
  case (Cons t ts)
  then show ?case
    by (auto simp: phi_meet_def)
qed

lemma phi_fold_top:
  assumes "Tv tarval_top \<notin> set ts"
  shows "phi_fold ts (Tv tarval_top) = phi_meet ts"
proof (cases ts)
  case Nil
  then show ?thesis by (simp add: phi_meet_def)
next
  case (Cons t ts')
  show ?thesis
  proof (cases "t = Tv tarval_bottom")
    case True
    then show ?thesis using Cons by (simp add: phi_meet_def)
  next
    case False
    moreover have "t \<noteq> Tv tarval_top" "Tv tarval_top \<notin> set ts'" using Cons assms by auto
    ultimately show ?thesis using Cons phi_fold_const [of ts' t] by simp
  qed
qed

lemma phi_meet_rev: "phi_meet (rev ts) = phi_meet ts"
proof (cases "\<exists>a \<in> set ts. \<exists>b \<in> set ts. a \<noteq> b")
  case True
  then show ?thesis by (auto simp: phi_meet_def)
next
  case False
  then have eq: "\<And>a b. a \<in> set ts \<Longrightarrow> b \<in> set ts \<Longrightarrow> a = b" by blast
  show ?thesis
  proof (cases "ts = []")
    case True
    then show ?thesis by simp
  next
    case ne: False
    then have "hd (rev ts) \<in> set ts" "hd ts \<in> set ts"
      by (metis hd_in_set rev_is_Nil_conv set_rev, simp)
    then have "hd (rev ts) = hd ts" using eq by blast
    then show ?thesis using ne by (simp add: phi_meet_def)
  qed
qed

lemma phi_live_top_free: "Tv tarval_top \<notin> set (phi_live_inputs st phi blk k)"
  by (auto simp: phi_live_inputs_def)

lemma compute_Phi_loop_meet:
  "compute_Phi_loop st phi blk k (Tv tarval_top) = phi_meet (phi_live_inputs st phi blk k)"
  using phi_fold_top [of "rev (phi_live_inputs st phi blk k)"] phi_live_top_free [of st phi blk k]
  by (simp add: compute_Phi_loop_fold phi_meet_rev)

lemma phi_live_contributing:
  assumes "\<forall>i < get_irn_arity st phi.
     get_node_type st (get_Block_cfgpred st blk i) = Tv tarval_reachable
     \<or> get_node_type st (get_Block_cfgpred st blk i) = Tv tarval_unreachable"
  shows "phi_live_inputs st phi blk (get_irn_arity st phi) = phi_contributing st phi blk"
proof -
  have "filter (\<lambda>i. get_node_type st (get_Block_cfgpred st blk i) \<noteq> Tv tarval_unreachable
                    \<and> get_node_type st (get_Phi_pred st phi i) \<noteq> Tv tarval_top) [0..<get_irn_arity st phi]
      = filter (\<lambda>i. get_node_type st (get_Block_cfgpred st blk i) = Tv tarval_reachable
                    \<and> get_node_type st (get_Phi_pred st phi i) \<noteq> Tv tarval_top)
          [0..<get_irn_arity st phi]"
    using assms by (intro filter_cong) (auto simp: tarval_unreachable_def tarval_top_def)
  then show ?thesis by (simp add: phi_live_inputs_def phi_contributing_def)
qed

text \<open>
  C5. When every control-flow predecessor of the block of a Phi has type Reachable or
  Unreachable, \<open>compute_Phi\<close> gives the Phi the type Top if its block is Unreachable, and
  otherwise the meet of the inputs whose control-flow predecessor is Reachable and which
  are not Top: Top when there is none, their common value when they agree, Bottom when one
  is Bottom or two differ.
\<close>

theorem compute_Phi_meet:
  fixes st :: combo_state and n :: node_p
  defines "phi \<equiv> node (node_tab st n)"
  defines "block \<equiv> get_irn_node st (get_nodes_block st phi)"
  assumes cf: "\<forall>i < get_irn_arity st phi.
     get_node_type st (get_Block_cfgpred st (node (node_tab st block)) i) = Tv tarval_reachable
     \<or> get_node_type st (get_Block_cfgpred st (node (node_tab st block)) i) = Tv tarval_unreachable"
  shows "compute_Phi st n =
     set_node_type st n
       (if node_type st block = Tv tarval_unreachable then Tv tarval_top
        else phi_meet (phi_contributing st phi (node (node_tab st block))))"
  using phi_live_contributing [OF cf]
  by (simp add: compute_Phi_def Let_def phi_def [symmetric] block_def [symmetric] compute_Phi_loop_meet)

subsection \<open>Apply phase\<close>




subsection \<open>Order of the two cprop lists\<close>

lemma cprop_sorted_iff:
  "cprop_sorted st \<longleftrightarrow>
     (\<forall>X < part_next st. (\<forall>y \<in> set (cprop (part_tab st X)). \<not> is_cond_like st y)
        \<and> (\<forall>y \<in> set (cprop_X (part_tab st X)). is_cond_like st y))"
  by (auto simp: cprop_sorted_def list_all_iff)

lemma cprop_place_frame:
  "irg (cprop_place st y) = irg st"
  "part_next (cprop_place st y) = part_next st"
  "node (node_tab (cprop_place st y) z) = node (node_tab st z)"
  by (simp_all add: cprop_place_def Let_def set_part_def set_node_def)

lemma is_cond_like_cprop_place [simp]:
  "is_cond_like (cprop_place st y) z = is_cond_like st z"
  by (simp add: is_cond_like_def skip_Proj_def is_op_def get_irn_opcode_def get_Proj_pred_def
      get_irn_n_def cprop_place_frame)

lemma cprop_place_lists:
  "cprop (part_tab (cprop_place st y) X) =
     (if \<not> on_cprop (node_tab st y) \<and> X = part (node_tab st y) \<and> \<not> is_cond_like st y
      then cprop (part_tab st X) @ [y] else cprop (part_tab st X))"
  "cprop_X (part_tab (cprop_place st y) X) =
     (if \<not> on_cprop (node_tab st y) \<and> X = part (node_tab st y) \<and> is_cond_like st y
      then cprop_X (part_tab st X) @ [y] else cprop_X (part_tab st X))"
  by (auto simp: cprop_place_def Let_def set_part_def set_node_def is_cond_like_def)

lemma cprop_place_sorted:
  assumes "cprop_sorted st"
  shows "cprop_sorted (cprop_place st y)"
  using assms
  by (auto simp: cprop_sorted_iff cprop_place_lists cprop_place_frame)

lemma add_to_cprop_fold_sorted:
  assumes step: "\<forall>s y s'. cprop_sorted s \<longrightarrow> add_to_cprop fuel s y = Some s' \<longrightarrow> cprop_sorted s'"
  shows "fold (\<lambda>p r. case r of None \<Rightarrow> None | Some s \<Rightarrow> add_to_cprop fuel s (get_irn_node s p)) ps r0
           = Some st' \<Longrightarrow> (\<forall>s. r0 = Some s \<longrightarrow> cprop_sorted s) \<Longrightarrow> cprop_sorted st'"
proof (induction ps arbitrary: r0)
  case Nil
  then show ?case by simp
next
  case (Cons p ps)
  let ?r1 = "case r0 of None \<Rightarrow> None | Some s \<Rightarrow> add_to_cprop fuel s (get_irn_node s p)"
  have f: "fold (\<lambda>p r. case r of None \<Rightarrow> None | Some s \<Rightarrow> add_to_cprop fuel s (get_irn_node s p)) ps ?r1
             = Some st'"
    using Cons.prems(1) by simp
  have "\<forall>s. ?r1 = Some s \<longrightarrow> cprop_sorted s"
    using step Cons.prems(2) by (cases r0) auto
  with f show ?case by (rule Cons.IH)
qed

lemma add_to_cprop_sorted:
  "cprop_sorted st \<Longrightarrow> add_to_cprop fuel st y = Some st' \<Longrightarrow> cprop_sorted st'"
proof (induction fuel arbitrary: st y st')
  case 0
  then show ?case by simp
next
  case (Suc fuel)
  let ?st1 = "cprop_place st y"
  have s1: "\<forall>s. Some ?st1 = Some s \<longrightarrow> cprop_sorted s"
    using Suc.prems(1) cprop_place_sorted by simp
  have step: "\<forall>s y s'. cprop_sorted s \<longrightarrow> add_to_cprop fuel s y = Some s' \<longrightarrow> cprop_sorted s'"
    using Suc.IH by blast
  show ?case
  proof (cases "get_irn_mode ?st1 (node (node_tab ?st1 y)) = mode_T")
    case True
    with Suc.prems(2) have
      "fold (\<lambda>p r. case r of None \<Rightarrow> None | Some s \<Rightarrow> add_to_cprop fuel s (get_irn_node s p))
         (rev (map fst (irn_out (irg ?st1 (node (node_tab ?st1 y)))))) (Some ?st1) = Some st'"
      by (simp add: Let_def)
    then show ?thesis
      using add_to_cprop_fold_sorted [OF step] s1 by blast
  next
    case notT: False
    show ?thesis
    proof (cases "is_Block ?st1 (node (node_tab ?st1 y))")
      case True
      with notT Suc.prems(2) have
        "fold (\<lambda>p r. case r of None \<Rightarrow> None | Some s \<Rightarrow> add_to_cprop fuel s (get_irn_node s p))
           (irn_block_phis (irg ?st1 (node (node_tab ?st1 y)))) (Some ?st1) = Some st'"
        by (simp add: Let_def)
      then show ?thesis
        using add_to_cprop_fold_sorted [OF step] s1 by blast
    next
      case False
      with notT Suc.prems(2) have "st' = ?st1" by (simp add: Let_def)
      then show ?thesis using s1 by simp
    qed
  qed
qed

lemma propagate_pick_frame:
  assumes "propagate_pick st X = Some (x, st')"
  shows "irg st' = irg st" "part_next st' = part_next st"
    "node (node_tab st' z) = node (node_tab st z)"
  using assms
  by (auto simp: propagate_pick_def Let_def set_part_def set_node_def split: if_splits)

lemma is_cond_like_frame:
  assumes "irg st' = irg st" "\<And>z. node (node_tab st' z) = node (node_tab st z)"
  shows "is_cond_like st' z = is_cond_like st z"
  using assms
  by (simp add: is_cond_like_def skip_Proj_def is_op_def get_irn_opcode_def get_Proj_pred_def
      get_irn_n_def)

lemma propagate_pick_lists:
  assumes "propagate_pick st X = Some (x, st')"
  shows "set (cprop (part_tab st' Y)) \<subseteq> set (cprop (part_tab st Y))"
    "set (cprop_X (part_tab st' Y)) \<subseteq> set (cprop_X (part_tab st Y))"
  using assms
  by (auto simp: propagate_pick_def Let_def set_part_def set_node_def split: if_splits
      dest: list.set_sel(2))

lemma propagate_pick_sorted:
  assumes "propagate_pick st X = Some (x, st')" "cprop_sorted st"
  shows "cprop_sorted st'"
proof -
  have cl: "\<And>z. is_cond_like st' z = is_cond_like st z"
    using propagate_pick_frame [OF assms(1)] by (intro is_cond_like_frame) auto
  show ?thesis
    using assms(2) propagate_pick_lists [OF assms(1)] propagate_pick_frame(2) [OF assms(1)]
    by (simp add: cprop_sorted_iff cl) blast
qed

lemma propagate_pick_choice:
  assumes "propagate_pick st X = Some (x, st')"
  shows "x = (if cprop (part_tab st X) = [] then hd (cprop_X (part_tab st X))
              else hd (cprop (part_tab st X)))"
    "cprop (part_tab st X) = [] \<longrightarrow> cprop_X (part_tab st X) \<noteq> []"
  using assms by (auto simp: propagate_pick_def Let_def split: if_splits)

text \<open>
  C8. When the ordinary cprop lists hold no Cond, Switch or Proj of one and the \<open>cprop_X\<close>
  lists hold nothing else, then \<open>add_to_cprop\<close> keeps it so (a Cond, a Switch or a Proj of
  one is enqueued on \<open>cprop_X\<close>, every other node on the ordinary list), and the node
  \<open>propagate\<close> takes next from a partition is the head of the ordinary list whenever
  that list is not empty: a Cond, a Switch or a Proj of one is taken, from \<open>cprop_X\<close>, only
  when the ordinary list is empty.
\<close>

theorem cprop_X_after_cprop:
  assumes inv: "cprop_sorted st"
  shows "(\<forall>fuel y st'. add_to_cprop fuel st y = Some st' \<longrightarrow> cprop_sorted st')
       \<and> (\<forall>X x st'. X < part_next st \<and> propagate_pick st X = Some (x, st') \<longrightarrow>
            cprop_sorted st'
            \<and> (cprop (part_tab st X) \<noteq> [] \<longrightarrow>
                 x = hd (cprop (part_tab st X)) \<and> \<not> is_cond_like st x)
            \<and> (is_cond_like st x \<longrightarrow>
                 cprop (part_tab st X) = [] \<and> x = hd (cprop_X (part_tab st X))))"
proof (intro conjI allI impI)
  fix fuel y st'
  assume "add_to_cprop fuel st y = Some st'"
  then show "cprop_sorted st'" using inv add_to_cprop_sorted by blast
next
  fix X x st'
  assume a: "X < part_next st \<and> propagate_pick st X = Some (x, st')"
  then have pk: "propagate_pick st X = Some (x, st')" by simp
  note ch = propagate_pick_choice(1) [OF pk]
  show "cprop_sorted st'" using inv pk propagate_pick_sorted by blast
  {
    assume ne: "cprop (part_tab st X) \<noteq> []"
    then have x: "x = hd (cprop (part_tab st X))" using ch by simp
    then have "x \<in> set (cprop (part_tab st X))" using ne by simp
    then have "\<not> is_cond_like st x" using inv a by (auto simp: cprop_sorted_iff)
    with x show "x = hd (cprop (part_tab st X))" "\<not> is_cond_like st x" by simp_all
  }
  note ord = this
  {
    assume c: "is_cond_like st x"
    then show e: "cprop (part_tab st X) = []" using ord by blast
    then show "x = hd (cprop_X (part_tab st X))" using ch by simp
  }
qed

subsection \<open>Worklist after a split\<close>

lemma wl_frame_refl [simp]: "wl_frame st st"
  by (simp add: wl_frame_def)

lemma wl_frame_trans: "wl_frame st st1 \<Longrightarrow> wl_frame st1 st2 \<Longrightarrow> wl_frame st st2"
  by (simp add: wl_frame_def)

lemma wl_frame_set [simp]:
  "wl_frame st (set_node st n x)" "wl_frame st (set_part st X P)"
  "wl_frame st (set_irn_out st irn es)" "wl_frame st (list_del_node_list st n)"
  "wl_frame st (cprop_push st X)"
  by (simp_all add: wl_frame_def set_node_def set_part_def set_irn_out_def
      list_del_node_list_def cprop_push_def Let_def)

lemma wl_frame_move_edge_scan: "wl_frame st (move_edge_scan st pred irn i j)"
proof (induction st pred irn i j rule: move_edge_scan.induct)
  case (1 st pred irn i j)
  show ?case
  proof (cases "j < n_followers (node_tab st pred)")
    case False
    then show ?thesis by (subst move_edge_scan.simps) (simp add: Let_def)
  next
    case True
    let ?edge = "irn_out (irg st (node (node_tab st pred))) ! j"
    show ?thesis
    proof (cases "snd ?edge = int i \<and> fst ?edge = irn")
      case True
      with \<open>j < n_followers (node_tab st pred)\<close> show ?thesis
        by (subst move_edge_scan.simps)
           (simp add: Let_def wl_frame_def set_node_def set_irn_out_def)
    next
      case False
      with \<open>j < n_followers (node_tab st pred)\<close> 1 [OF refl refl refl True refl False]
      show ?thesis
        by (subst move_edge_scan.simps) (auto simp: Let_def)
    qed
  qed
qed

lemma wl_frame_move_edges_loop: "wl_frame st (move_edges_loop st irn i)"
proof (induction i arbitrary: st)
  case 0
  show ?case by simp
next
  case (Suc i)
  show ?case
    by simp (rule wl_frame_trans [OF wl_frame_move_edge_scan Suc])
qed

lemma wl_frame_follower_to_leader:
  assumes "follower_to_leader st n = Inr st'"
  shows "wl_frame st st'"
proof -
  let ?st1 = "set_node st n ((node_tab st n)\<lparr>is_follower := False\<rparr>)"
  let ?st2 = "move_edges_to_leader ?st1 n"
  let ?st3 = "list_del_node_list ?st2 n"
  have "wl_frame st ?st1" by simp
  moreover have "wl_frame ?st1 ?st2"
    by (simp add: move_edges_to_leader_def Let_def wl_frame_move_edges_loop)
  moreover have "wl_frame ?st2 ?st3" by simp
  ultimately have "wl_frame st ?st3" by (blast intro: wl_frame_trans)
  moreover from assms obtain P where "st' = set_part ?st3 (part (node_tab ?st3 n)) P"
    by (auto simp: follower_to_leader_def Let_def split: if_splits)
  ultimately show ?thesis using wl_frame_set(2) wl_frame_trans by blast
qed

lemma wl_frame_step_edges_aux:
  "n_followers (node_tab st n) - idx = k \<Longrightarrow> step_edges st sd n idx = Inr (r, idx', st')
   \<Longrightarrow> wl_frame st st'"
proof (induction k arbitrary: st idx)
  case 0
  then have "\<not> idx < n_followers (node_tab st n)" by simp
  with "0.prems"(2) show ?case
    by (subst (asm) step_edges.simps) simp
next
  case (Suc k)
  let ?m = "get_irn_node st (fst (irn_out (irg st (node (node_tab st n))) ! idx))"
  let ?st1 = "set_node st ?m ((node_tab st ?m)\<lparr>flagged := or (flagged (node_tab st ?m)) sd\<rparr>)"
  have lt: "idx < n_followers (node_tab st n)" using Suc.prems(1) by simp
  have r1: "step_edges st sd n (Suc idx) = Inr (r, idx', st') \<Longrightarrow> wl_frame st st'"
    using Suc.IH [of st "Suc idx"] Suc.prems(1) by simp
  have "n_followers (node_tab ?st1 n) - Suc idx = k"
    using Suc.prems(1) by (simp add: set_node_def)
  then have r2: "step_edges ?st1 sd n (Suc idx) = Inr (r, idx', st') \<Longrightarrow> wl_frame st st'"
    using Suc.IH [of ?st1 "Suc idx"] wl_frame_trans [OF wl_frame_set(1)] by blast
  from Suc.prems(2) lt r1 r2 show ?case
    by (subst (asm) step_edges.simps)
       (auto simp: Let_def split: if_splits sum.splits bool.splits)
qed

lemma wl_frame_step_edges:
  "step_edges st sd n idx = Inr (r, idx', st') \<Longrightarrow> wl_frame st st'"
  using wl_frame_step_edges_aux by blast

lemma wl_frame_step_walk_aux:
  "length (unwalked senv) = k \<Longrightarrow> step_walk st senv = Inr (b, senv', st') \<Longrightarrow> wl_frame st st'"
proof (induction k arbitrary: st senv)
  case 0
  then show ?case by (subst (asm) step_walk.simps) simp
next
  case (Suc k)
  then obtain n rest where u: "unwalked senv = n # rest" "length rest = k"
    by (cases "unwalked senv") auto
  show ?case
  proof (cases "step_edges st (side senv) n (index senv)")
    case (Inl e)
    with Suc.prems(2) u show ?thesis
      by (subst (asm) step_walk.simps) simp
  next
    case (Inr res)
    obtain mo idx st1 where res: "res = (mo, idx, st1)" by (cases res)
    have f1: "wl_frame st st1" using Inr res wl_frame_step_edges by blast
    show ?thesis
    proof (cases mo)
      case (Some m)
      with Suc.prems(2) u Inr res f1 show ?thesis
        by (subst (asm) step_walk.simps) simp
    next
      case None
      with Suc.prems(2) u Inr res have
        "step_walk st1 (senv\<lparr>unwalked := rest, walked := n # walked senv, index := 0\<rparr>)
           = Inr (b, senv', st')"
        by (subst (asm) step_walk.simps) simp
      then have "wl_frame st1 st'" by (rule Suc.IH [rotated]) (simp add: u(2))
      with f1 show ?thesis by (rule wl_frame_trans)
    qed
  qed
qed

lemma wl_frame_step:
  "step st senv = Inr (b, senv', st') \<Longrightarrow> wl_frame st st'"
  using wl_frame_step_walk_aux
  by (auto simp: step_def split: list.splits)

lemma wl_frame_race:
  "race fuel st s0 s1 = Some (Inr (w, s0', s1', st')) \<Longrightarrow> wl_frame st st'"
proof (induction fuel arbitrary: st s0 s1)
  case 0
  then show ?case by simp
next
  case (Suc fuel)
  from Suc.prems show ?case
    by (auto split: sum.splits prod.splits bool.splits
        dest!: wl_frame_step Suc.IH intro: wl_frame_trans)
qed

lemma wl_frame_clear_flags:
  "clear_flags st ns = Inr (res, st') \<Longrightarrow> wl_frame st st'"
proof (induction ns arbitrary: st res)
  case Nil
  then show ?case by simp
next
  case (Cons n ns)
  from Cons.prems obtain st1 res1 where
    a: "(if flagged (node_tab st n) = 3 then follower_to_leader st n else Inr st) = Inr st1"
    and b: "clear_flags (set_node st1 n ((node_tab st1 n)\<lparr>flagged := 0\<rparr>)) ns = Inr (res1, st')"
    by (auto split: sum.splits prod.splits)
  have "wl_frame st st1" using a wl_frame_follower_to_leader by (auto split: if_splits)
  moreover have "wl_frame st1 st'"
    using Cons.IH [OF b] wl_frame_trans [OF wl_frame_set(1)] by blast
  ultimately show ?case by (rule wl_frame_trans)
qed

lemma wl_frame_recheck_followers:
  "recheck_followers st xs = Inr (res, st') \<Longrightarrow> wl_frame st st'"
proof (induction xs arbitrary: st res)
  case Nil
  then show ?case by simp
next
  case (Cons x xs)
  from Cons.prems obtain y st1 res1 where
    a: "(if y = x then follower_to_leader st x else Inr st) = Inr st1"
    and b: "recheck_followers st1 xs = Inr (res1, st')"
    by (auto split: sum.splits prod.splits)
  have "wl_frame st st1" using a wl_frame_follower_to_leader by (auto split: if_splits)
  then show ?case using Cons.IH [OF b] by (rule wl_frame_trans)
qed

lemma wl_frame_move_walked:
  "move_walked st Xp xs n m = (n', m', st') \<Longrightarrow> wl_frame st st'"
proof (induction xs arbitrary: st n m)
  case Nil
  then show ?case by simp
next
  case (Cons x xs)
  let ?st1 = "list_del_node_list st x"
  let ?st2 = "set_node ?st1 x ((node_tab ?st1 x)\<lparr>part := Xp\<rparr>)"
  from Cons.prems obtain st3 n1 m1 where
    a: "move_walked st3 Xp xs n1 m1 = (n', m', st')"
    and b: "st3 = set_part ?st2 Xp ((part_tab ?st2 Xp)\<lparr>Follower := Follower (part_tab ?st2 Xp) @ [x]\<rparr>)
          \<or> st3 = set_part ?st2 Xp ((part_tab ?st2 Xp)\<lparr>Leader := Leader (part_tab ?st2 Xp) @ [x]\<rparr>)"
    by (auto simp: Let_def split: if_splits)
  have "wl_frame st ?st2" using wl_frame_trans [OF wl_frame_set(4) wl_frame_set(1)] .
  moreover have "wl_frame ?st2 st3" using b by auto
  ultimately have "wl_frame st st3" by (rule wl_frame_trans)
  then show ?case using Cons.IH [OF a] by (rule wl_frame_trans)
qed

lemma bind_err_Inr:
  "bind_err r f = Inr y \<Longrightarrow> \<exists>x. r = Inr x \<and> f x = Inr y"
  by (cases r) (simp_all add: bind_err_def)

lemma split_finish_worklist:
  assumes fin: "split_finish st X winner s0 s1 = Inr (R, X_new, st')"
  shows "worklist (env st') = part_next st # worklist (env st)"
    and "(R = part_next st \<and> X_new = X) \<or> (R = X \<and> X_new = part_next st)"
proof -
  let ?sw = "if winner = 0 then s0 else s1"
  from fin have b0:
    "bind_err (clear_flags st (unwalked s0)) (\<lambda>(c1, st1).
        bind_err (clear_flags st1 (walked s0)) (\<lambda>(c2, st2).
        bind_err (clear_flags st2 (unwalked s1)) (\<lambda>(c3, st3).
        bind_err (clear_flags st3 (walked s1)) (\<lambda>(c4, st4).
          let t_winner = (if winner = 0 then c1 \<or> c2 else c3 \<or> c4);
              t_other = (if winner = 0 then c3 \<or> c4 else c1 \<or> c2);
              (X_prime, st5) = new_partition st4;
              (n, max_input, st6) = move_walked st5 X_prime (walked ?sw) 0 0;
              st7 = set_part st6 X_prime
                      ((part_tab st6 X_prime)\<lparr>n_leader := n, max_user_inputs := max_input\<rparr>);
              st8 = set_part st7 X
                      ((part_tab st7 X)\<lparr>n_leader := n_leader (part_tab st7 X) - n\<rparr>);
              st9 = set_part st8 X_prime
                      ((part_tab st8 X_prime)
                         \<lparr>type_is_T_or_C := type_is_T_or_C (part_tab st8 X)\<rparr>)
          in bind_err (recheck_followers st9 (Follower (part_tab st9 X_prime))) (\<lambda>(t_new, st10).
               if \<not> (check_partition st10 X \<and> check_partition st10 X_prime) then
                 Inl AssertionFailed
               else
                 bind_err (add_to_worklist st10 X_prime) (\<lambda>st11.
                   let st12 = (if t_winner \<or> t_new then cprop_push st11 X_prime else st11);
                       st13 = (if t_other then cprop_push st12 X else st12)
                   in if winner \<noteq> 0 then Inr (X, X_prime, st13)
                      else Inr (X_prime, X, st13)))))))
     = Inr (R, X_new, st')"
    by (simp add: split_finish_def Let_def split: if_splits)
  from bind_err_Inr [OF b0] obtain c1 st1 where
    s1: "clear_flags st (unwalked s0) = Inr (c1, st1)" and b1: "bind_err (clear_flags st1 (walked s0)) (\<lambda>(c2, st2).
        bind_err (clear_flags st2 (unwalked s1)) (\<lambda>(c3, st3).
        bind_err (clear_flags st3 (walked s1)) (\<lambda>(c4, st4).
          let t_winner = (if winner = 0 then c1 \<or> c2 else c3 \<or> c4);
              t_other = (if winner = 0 then c3 \<or> c4 else c1 \<or> c2);
              (X_prime, st5) = new_partition st4;
              (n, max_input, st6) = move_walked st5 X_prime (walked ?sw) 0 0;
              st7 = set_part st6 X_prime
                      ((part_tab st6 X_prime)\<lparr>n_leader := n, max_user_inputs := max_input\<rparr>);
              st8 = set_part st7 X
                      ((part_tab st7 X)\<lparr>n_leader := n_leader (part_tab st7 X) - n\<rparr>);
              st9 = set_part st8 X_prime
                      ((part_tab st8 X_prime)
                         \<lparr>type_is_T_or_C := type_is_T_or_C (part_tab st8 X)\<rparr>)
          in bind_err (recheck_followers st9 (Follower (part_tab st9 X_prime))) (\<lambda>(t_new, st10).
               if \<not> (check_partition st10 X \<and> check_partition st10 X_prime) then
                 Inl AssertionFailed
               else
                 bind_err (add_to_worklist st10 X_prime) (\<lambda>st11.
                   let st12 = (if t_winner \<or> t_new then cprop_push st11 X_prime else st11);
                       st13 = (if t_other then cprop_push st12 X else st12)
                   in if winner \<noteq> 0 then Inr (X, X_prime, st13)
                      else Inr (X_prime, X, st13))))))
     = Inr (R, X_new, st')"
    by auto
  from bind_err_Inr [OF b1] obtain c2 st2 where
    s2: "clear_flags st1 (walked s0) = Inr (c2, st2)" and b2: "
        bind_err (clear_flags st2 (unwalked s1)) (\<lambda>(c3, st3).
        bind_err (clear_flags st3 (walked s1)) (\<lambda>(c4, st4).
          let t_winner = (if winner = 0 then c1 \<or> c2 else c3 \<or> c4);
              t_other = (if winner = 0 then c3 \<or> c4 else c1 \<or> c2);
              (X_prime, st5) = new_partition st4;
              (n, max_input, st6) = move_walked st5 X_prime (walked ?sw) 0 0;
              st7 = set_part st6 X_prime
                      ((part_tab st6 X_prime)\<lparr>n_leader := n, max_user_inputs := max_input\<rparr>);
              st8 = set_part st7 X
                      ((part_tab st7 X)\<lparr>n_leader := n_leader (part_tab st7 X) - n\<rparr>);
              st9 = set_part st8 X_prime
                      ((part_tab st8 X_prime)
                         \<lparr>type_is_T_or_C := type_is_T_or_C (part_tab st8 X)\<rparr>)
          in bind_err (recheck_followers st9 (Follower (part_tab st9 X_prime))) (\<lambda>(t_new, st10).
               if \<not> (check_partition st10 X \<and> check_partition st10 X_prime) then
                 Inl AssertionFailed
               else
                 bind_err (add_to_worklist st10 X_prime) (\<lambda>st11.
                   let st12 = (if t_winner \<or> t_new then cprop_push st11 X_prime else st11);
                       st13 = (if t_other then cprop_push st12 X else st12)
                   in if winner \<noteq> 0 then Inr (X, X_prime, st13)
                      else Inr (X_prime, X, st13)))))
     = Inr (R, X_new, st')"
    by auto
  from bind_err_Inr [OF b2] obtain c3 st3 where
    s3: "clear_flags st2 (unwalked s1) = Inr (c3, st3)" and b3: "
        bind_err (clear_flags st3 (walked s1)) (\<lambda>(c4, st4).
          let t_winner = (if winner = 0 then c1 \<or> c2 else c3 \<or> c4);
              t_other = (if winner = 0 then c3 \<or> c4 else c1 \<or> c2);
              (X_prime, st5) = new_partition st4;
              (n, max_input, st6) = move_walked st5 X_prime (walked ?sw) 0 0;
              st7 = set_part st6 X_prime
                      ((part_tab st6 X_prime)\<lparr>n_leader := n, max_user_inputs := max_input\<rparr>);
              st8 = set_part st7 X
                      ((part_tab st7 X)\<lparr>n_leader := n_leader (part_tab st7 X) - n\<rparr>);
              st9 = set_part st8 X_prime
                      ((part_tab st8 X_prime)
                         \<lparr>type_is_T_or_C := type_is_T_or_C (part_tab st8 X)\<rparr>)
          in bind_err (recheck_followers st9 (Follower (part_tab st9 X_prime))) (\<lambda>(t_new, st10).
               if \<not> (check_partition st10 X \<and> check_partition st10 X_prime) then
                 Inl AssertionFailed
               else
                 bind_err (add_to_worklist st10 X_prime) (\<lambda>st11.
                   let st12 = (if t_winner \<or> t_new then cprop_push st11 X_prime else st11);
                       st13 = (if t_other then cprop_push st12 X else st12)
                   in if winner \<noteq> 0 then Inr (X, X_prime, st13)
                      else Inr (X_prime, X, st13))))
     = Inr (R, X_new, st')"
    by auto
  from bind_err_Inr [OF b3] obtain c4 st4 where
    s4: "clear_flags st3 (walked s1) = Inr (c4, st4)" and b4: "
          (let t_winner = (if winner = 0 then c1 \<or> c2 else c3 \<or> c4);
              t_other = (if winner = 0 then c3 \<or> c4 else c1 \<or> c2);
              (X_prime, st5) = new_partition st4;
              (n, max_input, st6) = move_walked st5 X_prime (walked ?sw) 0 0;
              st7 = set_part st6 X_prime
                      ((part_tab st6 X_prime)\<lparr>n_leader := n, max_user_inputs := max_input\<rparr>);
              st8 = set_part st7 X
                      ((part_tab st7 X)\<lparr>n_leader := n_leader (part_tab st7 X) - n\<rparr>);
              st9 = set_part st8 X_prime
                      ((part_tab st8 X_prime)
                         \<lparr>type_is_T_or_C := type_is_T_or_C (part_tab st8 X)\<rparr>)
          in bind_err (recheck_followers st9 (Follower (part_tab st9 X_prime))) (\<lambda>(t_new, st10).
               if \<not> (check_partition st10 X \<and> check_partition st10 X_prime) then
                 Inl AssertionFailed
               else
                 bind_err (add_to_worklist st10 X_prime) (\<lambda>st11.
                   let st12 = (if t_winner \<or> t_new then cprop_push st11 X_prime else st11);
                       st13 = (if t_other then cprop_push st12 X else st12)
                   in if winner \<noteq> 0 then Inr (X, X_prime, st13)
                      else Inr (X_prime, X, st13))))
     = Inr (R, X_new, st')"
    by auto
  have f4: "wl_frame st st4"
    using wl_frame_clear_flags [OF s1] wl_frame_clear_flags [OF s2]
      wl_frame_clear_flags [OF s3] wl_frame_clear_flags [OF s4]
    by (blast intro: wl_frame_trans)
  let ?P = "part_next st4"
  let ?st5 = "snd (new_partition st4)"
  have np: "fst (new_partition st4) = ?P" "worklist (env ?st5) = worklist (env st4)"
    by (simp_all add: new_partition_def set_part_def)
  obtain n max_input st6 where mw: "move_walked ?st5 ?P (walked ?sw) 0 0 = (n, max_input, st6)"
    by (cases "move_walked ?st5 ?P (walked ?sw) 0 0") auto
  let ?st7 = "set_part st6 ?P ((part_tab st6 ?P)\<lparr>n_leader := n, max_user_inputs := max_input\<rparr>)"
  let ?st8 = "set_part ?st7 X ((part_tab ?st7 X)\<lparr>n_leader := n_leader (part_tab ?st7 X) - n\<rparr>)"
  let ?st9 = "set_part ?st8 ?P ((part_tab ?st8 ?P)\<lparr>type_is_T_or_C := type_is_T_or_C (part_tab ?st8 X)\<rparr>)"
  from b4 mw have b5:
    "bind_err (recheck_followers ?st9 (Follower (part_tab ?st9 ?P))) (\<lambda>(t_new, st10).
               if \<not> (check_partition st10 X \<and> check_partition st10 ?P) then
                 Inl AssertionFailed
               else
                 bind_err (add_to_worklist st10 ?P) (\<lambda>st11.
                   let st12 = (if (if winner = 0 then c1 \<or> c2 else c3 \<or> c4) \<or> t_new
                               then cprop_push st11 ?P else st11);
                       st13 = (if (if winner = 0 then c3 \<or> c4 else c1 \<or> c2)
                               then cprop_push st12 X else st12)
                   in if winner \<noteq> 0 then Inr (X, ?P, st13)
                      else Inr (?P, X, st13)))
     = Inr (R, X_new, st')"
    by (simp add: Let_def new_partition_def split: prod.splits)
  from bind_err_Inr [OF b5] obtain t_new st10 where
    s10: "recheck_followers ?st9 (Follower (part_tab ?st9 ?P)) = Inr (t_new, st10)"
    and b6: "bind_err (add_to_worklist st10 ?P) (\<lambda>st11.
                   let st12 = (if (if winner = 0 then c1 \<or> c2 else c3 \<or> c4) \<or> t_new
                               then cprop_push st11 ?P else st11);
                       st13 = (if (if winner = 0 then c3 \<or> c4 else c1 \<or> c2)
                               then cprop_push st12 X else st12)
                   in if winner \<noteq> 0 then Inr (X, ?P, st13)
                      else Inr (?P, X, st13))
     = Inr (R, X_new, st')"
    by (auto split: if_splits)
  have wl9: "worklist (env ?st9) = worklist (env st4)"
    using wl_frame_move_walked [OF mw] np(2) by (simp add: wl_frame_def set_part_def)
  have wl10: "worklist (env st10) = worklist (env st4)"
    using wl_frame_recheck_followers [OF s10] wl9 by (simp add: wl_frame_def)
  have fin: "worklist (env st') = ?P # worklist (env st10)
      \<and> ((R = ?P \<and> X_new = X) \<or> (R = X \<and> X_new = ?P))"
    using b6
    by (auto simp: bind_err_def add_to_worklist_def Let_def cprop_push_def set_part_def
        split: sum.splits if_splits)
  have pn: "?P = part_next st" "worklist (env st4) = worklist (env st)"
    using f4 by (simp_all add: wl_frame_def)
  show "worklist (env st') = part_next st # worklist (env st)"
    using fin wl10 pn by simp
  show "(R = part_next st \<and> X_new = X) \<or> (R = X \<and> X_new = part_next st)"
    using fin pn(1) by simp
qed

lemma list_del_node_list_frame:
  "n_leader (part_tab (list_del_node_list st x) X) = n_leader (part_tab st X)"
  "on_worklist (part_tab (list_del_node_list st x) X) = on_worklist (part_tab st X)"
  "env (list_del_node_list st x) = env st"
  "part_next (list_del_node_list st x) = part_next st"
  by (simp_all add: list_del_node_list_def Let_def set_part_def)

lemma fold_list_del_frame:
  "n_leader (part_tab (fold (\<lambda>x s. list_del_node_list s x) g st) X) = n_leader (part_tab st X)
   \<and> on_worklist (part_tab (fold (\<lambda>x s. list_del_node_list s x) g st) X) = on_worklist (part_tab st X)
   \<and> env (fold (\<lambda>x s. list_del_node_list s x) g st) = env st
   \<and> part_next (fold (\<lambda>x s. list_del_node_list s x) g st) = part_next st"
  by (induction g arbitrary: st) (simp_all add: list_del_node_list_frame)

lemma move_to_partition_frame:
  "move_to_partition st Zp g m = (m', st') \<Longrightarrow>
     n_leader (part_tab st' X) = n_leader (part_tab st X)
   \<and> on_worklist (part_tab st' X) = on_worklist (part_tab st X)
   \<and> env st' = env st \<and> part_next st' = part_next st"
proof (induction g arbitrary: st m)
  case Nil
  then show ?case by simp
next
  case (Cons x g)
  let ?st1 = "set_part st Zp ((part_tab st Zp)\<lparr>Leader := Leader (part_tab st Zp) @ [x]\<rparr>)"
  let ?st2 = "set_node ?st1 x ((node_tab ?st1 x)\<lparr>part := Zp\<rparr>)"
  have fr: "n_leader (part_tab ?st2 X) = n_leader (part_tab st X)"
    "on_worklist (part_tab ?st2 X) = on_worklist (part_tab st X)"
    "env ?st2 = env st" "part_next ?st2 = part_next st"
    by (simp_all add: set_part_def set_node_def)
  from Cons.prems obtain m1 where "move_to_partition ?st2 Zp g m1 = (m', st')"
    by (simp add: Let_def)
  from Cons.IH [OF this] fr show ?case by simp
qed

lemma add_to_worklist_Inr:
  "add_to_worklist st X = Inr st' \<Longrightarrow>
     worklist (env st') = X # worklist (env st)
     \<and> (\<forall>Y. n_leader (part_tab st' Y) = n_leader (part_tab st Y))
     \<and> \<not> on_worklist (part_tab st X)"
  by (auto simp: add_to_worklist_def set_part_def split: if_splits)

lemma update_worklist_Inr:
  assumes "update_worklist st Z Z_prime = Inr st'"
  shows "worklist (env st') =
           (if on_worklist (part_tab st Z) \<or> n_leader (part_tab st Z_prime) < n_leader (part_tab st Z)
            then Z_prime else Z) # worklist (env st)"
    and "n_leader (part_tab st' Y) = n_leader (part_tab st Y)"
  using assms by (auto simp: update_worklist_def dest!: add_to_worklist_Inr split: if_splits)

lemma split_no_followers_enqueues:
  assumes split: "split_no_followers st Z g = Inr (Z_prime, st')"
    and Z: "Z < part_next st"
  shows "Z_prime = part_next st
       \<and> n_leader (part_tab st' Z_prime) = length g
       \<and> n_leader (part_tab st' Z) = n_leader (part_tab st Z) - length g
       \<and> worklist (env st') =
           (if on_worklist (part_tab st Z)
               \<or> n_leader (part_tab st' Z_prime) < n_leader (part_tab st' Z)
            then Z_prime else Z) # worklist (env st)"
proof -
  let ?st1 = "fold (\<lambda>x s. list_del_node_list s x) g st"
  let ?st2 = "set_part ?st1 Z ((part_tab ?st1 Z)\<lparr>n_leader := n_leader (part_tab ?st1 Z) - length g\<rparr>)"
  obtain max_input st4 where mv: "move_to_partition (snd (new_partition ?st2)) (part_next st) g 0 = (max_input, st4)"
    by (cases "move_to_partition (snd (new_partition ?st2)) (part_next st) g 0")
  let ?st5 = "set_part st4 (part_next st) ((part_tab st4 (part_next st))\<lparr>max_user_inputs := max_input, n_leader := length g\<rparr>)"
  let ?st6 = "set_part ?st5 (part_next st) ((part_tab ?st5 (part_next st))\<lparr>type_is_T_or_C := type_is_T_or_C (part_tab ?st5 Z)\<rparr>)"
  have pn: "part_next ?st2 = part_next st"
    using fold_list_del_frame [of g st] by (simp add: set_part_def)
  have np: "fst (new_partition ?st2) = part_next st"
    by (simp add: new_partition_def pn)
  from split have uw: "update_worklist ?st6 Z (part_next st) = Inr st'" and zp: "Z_prime = part_next st"
    using mv np pn
    by (auto simp: split_no_followers_def Let_def new_partition_def split: if_splits prod.splits sum.splits)
  have ne: "Z \<noteq> part_next st" using Z by simp
  note mf = move_to_partition_frame [OF mv]
  have nl6Z: "n_leader (part_tab ?st6 Z) = n_leader (part_tab st Z) - length g"
    using ne mf [of Z] fold_list_del_frame [of g st Z]
    by (simp add: set_part_def new_partition_def)
  have nl6P: "n_leader (part_tab ?st6 (part_next st)) = length g"
    by (simp add: set_part_def)
  have ow6: "on_worklist (part_tab ?st6 Z) = on_worklist (part_tab st Z)"
    using ne mf [of Z] fold_list_del_frame [of g st Z]
    by (simp add: set_part_def new_partition_def)
  have env6: "worklist (env ?st6) = worklist (env st)"
    using mf [of Z] fold_list_del_frame [of g st Z]
    by (simp add: set_part_def new_partition_def)
  note u = update_worklist_Inr [OF uw]
  show ?thesis
    using zp u(1) u(2) [of Z] u(2) [of "part_next st"] nl6Z nl6P ow6 env6 by simp
qed

text \<open>
  C6 (amended). A split of \<open>X\<close> puts exactly one partition on the worklist. By the no-follower
  path it is the new partition \<open>X'\<close> when \<open>X\<close> was already on the worklist or \<open>X'\<close> has fewer
  leaders than what remains of \<open>X\<close>, and \<open>X\<close> otherwise; there \<open>X'\<close> holds the nodes split
  out. By the race it is always the new partition \<open>X'\<close>, whatever the numbers of leaders of the
  two parts.
\<close>

theorem split_worklist:
  assumes sp: "split fuel st X gg = Some (Inr (R, X_new, st'))"
    and X: "X < part_next st"
  shows "((R = part_next st \<and> X_new = X) \<or> (R = X \<and> X_new = part_next st))
       \<and> worklist (env st') =
           (if Follower (part_tab st X) = [] \<and> \<not> on_worklist (part_tab st X)
               \<and> n_leader (part_tab st' X) \<le> n_leader (part_tab st' (part_next st))
            then X else part_next st) # worklist (env st)
       \<and> (Follower (part_tab st X) = [] \<longrightarrow>
            n_leader (part_tab st' (part_next st)) = length gg
            \<and> n_leader (part_tab st' X) = n_leader (part_tab st X) - length gg)"
proof (cases "Follower (part_tab st X) = []")
  case True
  with sp have "split_no_followers st X gg = Inr (R, st')" and xn: "X_new = X"
    by (auto simp: split_def split: sum.splits)
  from split_no_followers_enqueues [OF this(1) X] xn True show ?thesis
    by (auto simp: not_less)
next
  case False
  let ?P = "part_tab st X"
  let ?rest = "filter (\<lambda>x. x \<notin> set gg) (Leader ?P)"
  let ?st0 = "set_part st X (?P\<lparr>Leader := gg @ ?rest\<rparr>)"
  from sp False obtain winner s0 s1 st1 where
    r: "race fuel ?st0
          \<lparr>race_initial = rev gg, unwalked = [], walked = [], index = 0, side = 1\<rparr>
          \<lparr>race_initial = rev ?rest, unwalked = [], walked = [], index = 0, side = 2\<rparr>
        = Some (Inr (winner, s0, s1, st1))"
    and f: "split_finish st1 X winner s0 s1 = Inr (R, X_new, st')"
    by (auto simp: split_def Let_def split: if_splits option.splits sum.splits)
  have "wl_frame st st1"
    using wl_frame_trans [OF wl_frame_set(2) wl_frame_race [OF r]] .
  with split_finish_worklist [OF f] False show ?thesis
    by (simp add: wl_frame_def)
qed

subsection \<open>The theorems on the example graphs\<close>

lemmas accessor_defs =
  get_irn_node_def get_irn_opcode_def get_irn_mode_def get_nodes_block_def get_irn_arity_def
  get_irn_n_def get_irn_pinned_def get_Proj_proj_def get_Proj_pred_def get_Cond_selector_def
  get_Block_cfgpred_def get_Phi_pred_def get_node_type_def is_op_def skip_Proj_def
  node_type_def

lemmas setup_defs = combo_setup_def combo_select_UNKNOWN_def combo_set_options_def

lemmas cond_state_defs =
  cond_state_def cond_graph_def cond_nodes_def setup_defs example_defs accessor_defs
  lattice_consts

lemma cond_state_call_facts:
  "\<not> is_Block cond_state (node (node_tab cond_state 5))"
  "get_irn_pinned cond_state (skip_Proj cond_state (node (node_tab cond_state 5)))
     = op_pin_state_pinned"
  "node_type cond_state (get_irn_node cond_state
     (get_nodes_block cond_state (node (node_tab cond_state 5)))) = Tv tarval_unreachable"
  "node_type (compute_Call cond_state 5) 5 = Tv tarval_bottom"
  by (simp_all add: cond_state_defs compute_Call_def set_node_type_def)

theorem compute_pinned_unreachable_block_witness:
  "compute host_default cond_state 5 = Inr (set_node_type cond_state 5 (Tv tarval_top))
   \<and> node_type (compute_Call cond_state 5) 5 = Tv tarval_bottom"
  using compute_pinned_unreachable_block [OF cond_state_call_facts(1-3), of host_default]
    cond_state_call_facts(4)
  by simp

lemmas phi_state_defs =
  phi_state_def phi_graph_def phi_nodes_def setup_defs example_defs accessor_defs
  lattice_consts

lemma phi_state_cfgpreds:
  "\<forall>i < get_irn_arity phi_state (node (node_tab phi_state 5)).
     get_node_type phi_state (get_Block_cfgpred phi_state
        (node (node_tab phi_state (get_irn_node phi_state
           (get_nodes_block phi_state (node (node_tab phi_state 5)))))) i) = Tv tarval_reachable
     \<or> get_node_type phi_state (get_Block_cfgpred phi_state
        (node (node_tab phi_state (get_irn_node phi_state
           (get_nodes_block phi_state (node (node_tab phi_state 5)))))) i) = Tv tarval_unreachable"
  by (simp add: phi_state_defs less_Suc_eq numeral_2_eq_2)

lemma phi_state_facts:
  "phi_contributing phi_state (node (node_tab phi_state 5))
          (node (node_tab phi_state (get_irn_node phi_state
             (get_nodes_block phi_state (node (node_tab phi_state 5))))))
        = [Tv (tarval_val mode_Is 5)]"
  "node_type phi_state (get_irn_node phi_state
             (get_nodes_block phi_state (node (node_tab phi_state 5)))) \<noteq> Tv tarval_unreachable"
  by (simp_all add: phi_contributing_def phi_state_defs upt_rec)

theorem compute_Phi_meet_witness:
  "compute_Phi phi_state 5 = set_node_type phi_state 5 (Tv (tarval_val mode_Is 5))"
  using compute_Phi_meet [OF phi_state_cfgpreds] phi_state_facts
  by (simp add: phi_meet_def)














lemmas part_defs = set_part_def set_node_def

lemma cprop_state_irg:
  "irg cprop_state = irg cond_state" "part_next cprop_state = 1"
  "cprop (part_tab cprop_state 0) = [1]" "cprop_X (part_tab cprop_state 0) = [3]"
  "node (node_tab cprop_state z) = node (node_tab cond_state z)"
  by (simp_all add: cprop_state_def Let_def part_defs cond_state_defs)

lemma cprop_state_cond_like_1: "\<not> is_cond_like cprop_state (Suc 0)"
  by (simp add: is_cond_like_def cprop_state_def Let_def part_defs cond_state_defs)

lemma cprop_state_cond_like_3: "is_cond_like cprop_state 3"
  by (simp add: is_cond_like_def cprop_state_def Let_def part_defs cond_state_defs)

lemma cprop_state_sorted: "cprop_sorted cprop_state"
  by (simp add: cprop_sorted_def cprop_state_irg cprop_state_cond_like_1
      cprop_state_cond_like_3)

lemma cprop_state_add:
  "\<exists>st'. add_to_cprop 2 cprop_state 2 = Some st'
     \<and> cprop (part_tab st' 0) = [1] \<and> cprop_X (part_tab st' 0) = [3, 2, 4]"
  by (simp add: numeral_2_eq_2 cprop_place_def Let_def cprop_state_def part_defs
      cond_state_defs)

lemma cprop_state_pick:
  "\<exists>st'. propagate_pick cprop_state 0 = Some (1, st')"
  by (simp add: propagate_pick_def Let_def cprop_state_irg)

theorem cprop_X_after_cprop_witness:
  "(\<exists>st'. add_to_cprop 2 cprop_state 2 = Some st' \<and> cprop_sorted st'
      \<and> cprop (part_tab st' 0) = [1] \<and> cprop_X (part_tab st' 0) = [3, 2, 4])
   \<and> (\<exists>st'. propagate_pick cprop_state 0 = Some (1, st') \<and> cprop_sorted st'
         \<and> \<not> is_cond_like cprop_state 1)"
proof -
  note main = cprop_X_after_cprop [OF cprop_state_sorted]
  obtain s1 where s1: "add_to_cprop 2 cprop_state 2 = Some s1"
    "cprop (part_tab s1 0) = [1]" "cprop_X (part_tab s1 0) = [3, 2, 4]"
    using cprop_state_add by blast
  obtain s2 where s2: "propagate_pick cprop_state 0 = Some (1, s2)"
    using cprop_state_pick by blast
  have "cprop_sorted s1" using main s1(1) by blast
  moreover have "cprop_sorted s2 \<and> \<not> is_cond_like cprop_state 1"
    using main s2 cprop_state_irg(2,3) by (metis list.distinct(1) zero_less_one)
  ultimately show ?thesis using s1 s2 by blast
qed

lemmas rsplit_defs =
  rsplit_state_def rsplit_graph_def rsplit_nodes_def example_defs

lemma bind_err_weak_cong: "r = r' \<Longrightarrow> bind_err r f = bind_err r' f"
  by simp

lemma rsplit_state_proj:
  "node_tab rsplit_state 0 = node_default\<lparr>node := 0, type := Tv tarval_bottom\<rparr>"
  "node_tab rsplit_state (Suc 0) = node_default\<lparr>node := 1, type := Tv tarval_bottom\<rparr>"
  "node_tab rsplit_state 2 = node_default\<lparr>node := 2, type := Tv tarval_bottom, n_followers := 2\<rparr>"
  "node_tab rsplit_state 3 = node_default\<lparr>node := 3, type := Tv tarval_bottom, is_follower := True\<rparr>"
  "node_tab rsplit_state 4 = node_default\<lparr>node := 4, type := Tv tarval_bottom, is_follower := True\<rparr>"
  "part_tab rsplit_state 0 = partition_default\<lparr>Leader := [0, 1, 2], Follower := [3, 4], n_leader := 3\<rparr>"
  "part_next rsplit_state = 2"
  "worklist (env rsplit_state) = []"
  "irn_out (irg rsplit_state 0) = []"
  "irn_out (irg rsplit_state (Suc 0)) = []"
  "irn_out (irg rsplit_state 2) = [(3, 0), (4, 0)]"
  "irn_link (irg rsplit_state 3) = Some 3"
  "irn_link (irg rsplit_state 4) = Some 4"
  "irn_op (irg rsplit_state 3) = iro_Confirm"
  "irn_op (irg rsplit_state 4) = iro_Confirm"
  by (simp_all add: rsplit_defs)

lemmas rsplit_eval_defs = new_partition_def list_del_node_list_def check_partition_def add_to_worklist_def
      cprop_push_def rsplit_raced_def set_part_def set_node_def rsplit_state_proj
      node_default_def partition_default_def

lemmas weak_congs = let_weak_cong bind_err_weak_cong sum.case_cong_weak prod.case_cong_weak
  option.case_cong_weak list.case_cong_weak

lemma rsplit_state_race:
  "race 10 (set_part rsplit_state 0 ((part_tab rsplit_state 0)\<lparr>Leader := [0, Suc 0, 2]\<rparr>))
      \<lparr>race_initial = [Suc 0, 0], unwalked = [], walked = [], index = 0, side = Suc 0\<rparr>
      \<lparr>race_initial = [2], unwalked = [], walked = [], index = 0, side = 2\<rparr>
    = Some (Inr (0, rsplit_senv0, rsplit_senv1, rsplit_raced))"
  by (simp add: eval_nat_numeral step_def step_walk.simps step_edges.simps is_real_follower_def
      rsplit_defs accessor_defs set_part_def set_node_def rsplit_raced_def rsplit_senv0_def
      rsplit_senv1_def)

lemmas rsplit_stage_defs =
  rsplit_moved_def rsplit_new_def rsplit_cleared_def rsplit_walked0_def

lemma rsplit_stages:
  "clear_flags rsplit_raced [Suc 0, 0] = Inr (False, rsplit_walked0)"
  "clear_flags rsplit_walked0 [2, 3] = Inr (False, rsplit_cleared)"
  "new_partition rsplit_cleared = (2, rsplit_new)"
  "move_walked rsplit_new 2 [Suc 0, 0] 0 0 = (2, 0, rsplit_moved)"
  "clear_flags rsplit_raced [] = Inr (False, rsplit_raced)"
  "clear_flags rsplit_cleared [] = Inr (False, rsplit_cleared)"
  by (simp_all add: rsplit_stage_defs rsplit_eval_defs Let_def cong: weak_congs)

lemma rsplit_moved_proj:
  "node_tab rsplit_moved 0 = node_default\<lparr>node := 0, part := 2, type := Tv tarval_bottom\<rparr>"
  "node_tab rsplit_moved (Suc 0) = node_default\<lparr>node := 1, part := 2, type := Tv tarval_bottom\<rparr>"
  "node_tab rsplit_moved 2 = node_default\<lparr>node := 2, type := Tv tarval_bottom, n_followers := 2\<rparr>"
  "node_tab rsplit_moved 3 = node_default\<lparr>node := 3, type := Tv tarval_bottom, is_follower := True\<rparr>"
  "node_tab rsplit_moved 4 = node_default\<lparr>node := 4, type := Tv tarval_bottom, is_follower := True\<rparr>"
  "part_tab rsplit_moved 0 = partition_default\<lparr>Leader := [2], Follower := [3, 4], n_leader := 3\<rparr>"
  "part_tab rsplit_moved 2 = partition_default\<lparr>Leader := [1, 0]\<rparr>"
  "worklist (env rsplit_moved) = []"
  by (simp_all add: rsplit_stage_defs rsplit_eval_defs Let_def cong: weak_congs)

lemma rsplit_finish:
  "\<exists>st'. split_finish rsplit_raced 0 0 rsplit_senv0 rsplit_senv1 = Inr (2, 0, st')
     \<and> n_leader (part_tab st' 2) = 2 \<and> n_leader (part_tab st' 0) = 1
     \<and> worklist (env st') = [2]"
  by (simp add: split_finish_def bind_err_def Let_def rsplit_stages rsplit_moved_proj
      rsplit_senv0_def rsplit_senv1_def
      set_part_def check_partition_def add_to_worklist_def cprop_push_def
      node_default_def partition_default_def
      del: clear_flags.simps move_walked.simps cong: weak_congs)

lemma rsplit_state_start:
  "Follower (part_tab rsplit_state 0) = [3, 4]"
  "Leader (part_tab rsplit_state 0) = [0, Suc 0, 2]"
  "part (node_tab rsplit_state 0) = 0" "part (node_tab rsplit_state (Suc 0)) = 0"
  "\<not> is_follower (node_tab rsplit_state 0)" "\<not> is_follower (node_tab rsplit_state (Suc 0))"
  by (simp_all add: rsplit_state_proj node_default_def partition_default_def)

lemma rsplit_state_split:
  "\<exists>st'. split 10 rsplit_state 0 [0, 1] = Some (Inr (2, 0, st'))
     \<and> n_leader (part_tab st' 2) = 2 \<and> n_leader (part_tab st' 0) = 1
     \<and> worklist (env st') = [2]"
proof -
  from rsplit_finish obtain st' where
    fin: "split_finish rsplit_raced 0 0 rsplit_senv0 rsplit_senv1 = Inr (2, 0, st')"
    and nl: "n_leader (part_tab st' 2) = 2" "n_leader (part_tab st' 0) = 1"
      "worklist (env st') = [2]"
    by blast
  have "split 10 rsplit_state 0 [0, 1] = Some (Inr (2, 0, st'))"
    by (simp add: split_def Let_def rsplit_state_start rsplit_state_race fin del: race.simps)
  with nl show ?thesis by blast
qed

lemma split_state_off_run:
  "\<exists>st'. split 0 split_state_off 0 [1] = Some (Inr (1, 0, st'))"
  by (simp add: split_def split_no_followers_def Let_def split_state_off_def example_defs
      list_del_node_list_def part_defs new_partition_def check_partition_def
      update_worklist_def add_to_worklist_def)

theorem split_worklist_witness:
  "(\<exists>st'. split 0 split_state_off 0 [1] = Some (Inr (1, 0, st'))
      \<and> n_leader (part_tab st' 1) = 1 \<and> n_leader (part_tab st' 0) = 3
      \<and> worklist (env st') = [1])
   \<and> (\<exists>st'. split 10 rsplit_state 0 [0, 1] = Some (Inr (2, 0, st'))
      \<and> worklist (env st') = [2])"
proof -
  obtain st' where s: "split 0 split_state_off 0 [1] = Some (Inr (1, 0, st'))"
    using split_state_off_run by blast
  have f: "0 < part_next split_state_off" "n_leader (part_tab split_state_off 0) = 4"
    "\<not> on_worklist (part_tab split_state_off 0)" "worklist (env split_state_off) = []"
    "part_next split_state_off = Suc 0" "Follower (part_tab split_state_off 0) = []"
    by (simp_all add: split_state_off_def example_defs)
  from split_worklist [OF s f(1)]
  have a: "n_leader (part_tab st' 1) = 1 \<and> n_leader (part_tab st' 0) = 3
      \<and> worklist (env st') = [1]"
    by (simp add: f)
  obtain st2 where s2: "split 10 rsplit_state 0 [0, 1] = Some (Inr (2, 0, st2))"
    using rsplit_state_split by blast
  have X: "0 < part_next rsplit_state" by (simp add: rsplit_state_proj)
  from split_worklist [OF s2 X] have b: "worklist (env st2) = [2]"
    by (simp add: rsplit_state_start rsplit_state_proj)
  from s a s2 b show ?thesis by blast
qed

theorem split_larger_counterexample:
  "(\<exists>st'. split 0 split_state 0 [1, 2, 3] = Some (Inr (1, 0, st'))
      \<and> n_leader (part_tab st' 1) = 3 \<and> n_leader (part_tab st' 0) = 1
      \<and> worklist (env st') = [1, 0])
   \<and> (\<exists>st'. split 10 rsplit_state 0 [0, 1] = Some (Inr (2, 0, st'))
      \<and> n_leader (part_tab st' 2) = 2 \<and> n_leader (part_tab st' 0) = 1
      \<and> worklist (env st') = [2])"
proof -
  have "\<exists>st'. split 0 split_state 0 [1, 2, 3] = Some (Inr (1, 0, st'))
      \<and> n_leader (part_tab st' 1) = 3 \<and> n_leader (part_tab st' 0) = 1
      \<and> worklist (env st') = [1, 0]"
    by (simp add: split_def split_no_followers_def Let_def split_state_def example_defs
        list_del_node_list_def part_defs new_partition_def check_partition_def
        update_worklist_def add_to_worklist_def)
  with rsplit_state_split show ?thesis by blast
qed

end
